theory Spec2Isabelle
  imports Complex_Main
begin

section \<open>Values shared by \<^verbatim>\<open>backend/main.py\<close> and \<^verbatim>\<open>backend/predict.py\<close>\<close>

text \<open>
  Python exceptions are values: a function that may raise returns \<open>py_error + 'a\<close>, with
  \<open>Inl\<close> for the exception. \<open>ArtifactError\<close> stands for any exception of class
  \<^verbatim>\<open>Exception\<close> that a loaded artifact raises from \<^verbatim>\<open>transform\<close>, \<^verbatim>\<open>predict_proba\<close> or
  \<^verbatim>\<open>predict\<close>.

  Python floats are modelled as \<open>real\<close>: the code compares, clamps and scales them, and
  NaN and rounding error are outside the model. For that reason the statements about
  arbitrary inputs say only what the float computation satisfies as well: the code's own
  expressions, comparisons and bounds. A Python \<^verbatim>\<open>str\<close> is a \<open>string\<close> whose
  characters are the code points below 256.
\<close>

datatype py_error =
  TypeError | ValueError | IndexError | KeyError | AttributeError | OSError | ArtifactError

text \<open>A two-dimensional numpy array, as the list of its rows.\<close>

type_synonym ndarray = "real list list"

text \<open>A selector or a scaler: its \<^verbatim>\<open>transform\<close> method, which returns an array or raises.\<close>

type_synonym transformer = "ndarray \<Rightarrow> py_error + ndarray"

text \<open>
  What \<^verbatim>\<open>predict_proba\<close> returns: a two-dimensional array of one row per sample, or
  (malformed) a one-dimensional one.
\<close>

datatype proba = Proba1 "real list" | Proba2 "real list list"

text \<open>
  A classifier artifact. \<open>predict_proba\<close> is \<open>None\<close> when the object has no such
  attribute; \<open>predict\<close> returns one label per sample.
\<close>

record classifier =
  predict_proba :: "(ndarray \<Rightarrow> py_error + proba) option"
  predict :: "ndarray \<Rightarrow> py_error + int list"

subsection \<open>Character classes of \<^verbatim>\<open>str\<close>\<close>

text \<open>\<^verbatim>\<open>x.isdigit()\<close> of one character: the ASCII digits and the superscripts 2, 3 and 1.\<close>

definition char_isdigit :: "char \<Rightarrow> bool" where
  "char_isdigit c =
     (let n = (of_char c :: nat)
      in (48 \<le> n \<and> n \<le> 57) \<or> n = 178 \<or> n = 179 \<or> n = 185)"

text \<open>\<^verbatim>\<open>x.isupper()\<close> of one character: A-Z and the Latin-1 capitals.\<close>

definition char_isupper :: "char \<Rightarrow> bool" where
  "char_isupper c =
     (let n = (of_char c :: nat)
      in (65 \<le> n \<and> n \<le> 90) \<or> (192 \<le> n \<and> n \<le> 214) \<or> (216 \<le> n \<and> n \<le> 222))"

text \<open>The characters \<^verbatim>\<open>str.split()\<close> separates words at.\<close>

definition char_isspace :: "char \<Rightarrow> bool" where
  "char_isspace c =
     (let n = (of_char c :: nat)
      in (9 \<le> n \<and> n \<le> 13) \<or> (28 \<le> n \<and> n \<le> 32) \<or> n = 133 \<or> n = 160)"

text \<open>\<^verbatim>\<open>s.isdigit()\<close>: every character is a digit and there is at least one.\<close>

definition str_isdigit :: "string \<Rightarrow> bool" where
  "str_isdigit s = (s \<noteq> [] \<and> list_all char_isdigit s)"

text \<open>
  \<^verbatim>\<open>s.split()\<close>: the maximal runs of characters that are not whitespace. The first
  argument is the word being read.
\<close>

fun str_split_from :: "string \<Rightarrow> string \<Rightarrow> string list" where
  "str_split_from w [] = (if w = [] then [] else [w])"
| "str_split_from w (c # cs) =
     (if char_isspace c
      then (if w = [] then str_split_from [] cs else w # str_split_from [] cs)
      else str_split_from (w @ [c]) cs)"

definition str_split :: "string \<Rightarrow> string list" where
  "str_split s = str_split_from [] s"

section \<open>\<^verbatim>\<open>backend/main.py\<close>\<close>

subsection \<open>Request and response models\<close>

text \<open>
  \<^verbatim>\<open>VerificationRequest\<close>: \<^verbatim>\<open>address\<close> is \<^verbatim>\<open>Optional[str]\<close>, so it may be \<open>None\<close>; the
  other fields are \<^verbatim>\<open>str\<close>.
\<close>

record verification_request =
  req_name :: string
  req_documentNumber :: string
  req_address :: "string option"
  req_documentType :: string

text \<open>
  \<^verbatim>\<open>VerificationResponse\<close>, with the three entries of \<^verbatim>\<open>details\<close> as fields. The anomaly
  score is kept as the number that the source formats with two decimals.
\<close>

record verification_response =
  resp_status :: string
  resp_id :: string
  resp_timestamp :: string
  resp_name :: string
  resp_documentNumber :: string
  resp_fraudProbability :: real
  resp_riskLevel :: string
  resp_confidence :: real
  resp_documentAuthenticity :: string
  resp_addressVerification :: string
  resp_anomalyScore :: real
  resp_message :: string

subsection \<open>Globals\<close>

text \<open>
  A cell of the column \<^verbatim>\<open>GNN_Fraud_Probability\<close>: \<^verbatim>\<open>float(cell)\<close> returns a number or
  raises.
\<close>

datatype cell = FloatCell real | BadCell

text \<open>
  The data frame \<^verbatim>\<open>gnn_df\<close>: whether it has the two columns the lookup reads, and its
  rows as pairs of the string form of \<^verbatim>\<open>Document_Number\<close> and the probability cell.
  \<^verbatim>\<open>gnn_df.empty\<close> is the frame with no rows.
\<close>

record gnn_frame =
  has_doc_column :: bool
  has_prob_column :: bool
  frame_rows :: "(string \<times> cell) list"

text \<open>
  The module's globals after start-up. An artifact is \<open>None\<close> when it was not loaded
  (or is falsy), as the tests \<^verbatim>\<open>if feature_selector:\<close>, \<^verbatim>\<open>if scaler:\<close> and \<^verbatim>\<open>if model:\<close>
  read it.
\<close>

record main_globals =
  model :: "classifier option"
  scaler :: "transformer option"
  feature_selector :: "transformer option"
  gnn_df :: gnn_frame

text \<open>
  Lines 47-50: the globals before start-up, and after a start-up that loaded nothing.
  \<^verbatim>\<open>pd.DataFrame()\<close> is the frame with no rows and no columns.
\<close>

definition empty_frame :: gnn_frame where
  "empty_frame = \<lparr> has_doc_column = False, has_prob_column = False, frame_rows = [] \<rparr>"

definition initial_globals :: main_globals where
  "initial_globals =
     \<lparr> model = None, scaler = None, feature_selector = None, gnn_df = empty_frame \<rparr>"

subsection \<open>Feature extraction (lines 157-172)\<close>

text \<open>
  \<^verbatim>\<open>len(address)\<close> raises \<^verbatim>\<open>TypeError\<close> when \<^verbatim>\<open>address\<close> is \<^verbatim>\<open>None\<close>; it is the first
  expression of the list that can fail. The result is the array of shape (1, 12).
\<close>

definition extract_features ::
  "string \<Rightarrow> string \<Rightarrow> string option \<Rightarrow> string \<Rightarrow> py_error + ndarray" where
  "extract_features name doc address dtype =
     (case address of
        None \<Rightarrow> Inl TypeError
      | Some a \<Rightarrow>
          Inr [[
            real (length name),
            real (length doc),
            real (length a),
            (if str_isdigit doc then 1 else 0),
            real (card (set doc)),
            (if dtype = ''AADHAR'' then 1 else 0),
            (if dtype = ''PAN'' then 1 else 0),
            (if dtype \<in> set [''PASSPORT'', ''UTILITY''] then 1 else 0),
            real (length (str_split a)),
            real (length (str_split name)),
            (if list_ex char_isupper name then 1 else 0),
            (if list_ex char_isdigit name then 1 else 0)
          ]])"

subsection \<open>Risk label (lines 177-182)\<close>

definition classify :: "real \<Rightarrow> string" where
  "classify prob =
     (if prob < 0.33 then ''Low''
      else if prob < 0.67 then ''Medium''
      else ''High'')"

subsection \<open>GNN fallback (lines 187-196)\<close>

text \<open>
  The body of the \<^verbatim>\<open>try\<close>: \<open>Inr (Some p)\<close> is a \<^verbatim>\<open>return p\<close> inside it, \<open>Inr None\<close>
  leaves it without returning (no matching row), \<open>Inl\<close> is an exception: a missing
  column, or a cell that \<^verbatim>\<open>float\<close> refuses. The match is equality of strings.
\<close>

definition gnn_lookup :: "gnn_frame \<Rightarrow> string \<Rightarrow> py_error + real option" where
  "gnn_lookup df doc =
     (if frame_rows df = [] then Inr (Some 0.50)
      else if \<not> has_doc_column df then Inl KeyError
      else (case filter (\<lambda>r. fst r = doc) (frame_rows df) of
              [] \<Rightarrow> Inr None
            | r # _ \<Rightarrow>
                (if \<not> has_prob_column df then Inl KeyError
                 else (case snd r of
                         FloatCell p \<Rightarrow> Inr (Some p)
                       | BadCell \<Rightarrow> Inl ValueError))))"

text \<open>The bare \<^verbatim>\<open>except: pass\<close> and the final \<^verbatim>\<open>return 0.50\<close>.\<close>

definition gnn_pred :: "gnn_frame \<Rightarrow> string \<Rightarrow> real" where
  "gnn_pred df doc =
     (case gnn_lookup df doc of
        Inr (Some p) \<Rightarrow> p
      | Inr None \<Rightarrow> 0.50
      | Inl e \<Rightarrow> 0.50)"

subsection \<open>Full prediction (lines 201-234)\<close>

text \<open>
  The dictionary \<^verbatim>\<open>predict_fraud\<close> returns.
\<close>

record scoring_result =
  fraud_probability :: real
  risk_level :: string
  confidence :: real
  status :: string

text \<open>
  One transform stage (lines 203-207 for the selector, 208-212 for the scaler): skipped
  when the artifact is absent; when \<^verbatim>\<open>transform\<close> raises, the exception is logged and
  \<^verbatim>\<open>X\<close> keeps its value.
\<close>

definition transform_stage :: "transformer option \<Rightarrow> ndarray \<Rightarrow> ndarray" where
  "transform_stage artifact X =
     (case artifact of
        None \<Rightarrow> X
      | Some t \<Rightarrow> (case t X of Inr Y \<Rightarrow> Y | Inl e \<Rightarrow> X))"

text \<open>
  Lines 216-221, on the value of \<^verbatim>\<open>proba_result\<close>. \<^verbatim>\<open>shape[1]\<close> of a one-dimensional
  array, row 0 of an array without rows and the last entry of an empty row raise
  \<^verbatim>\<open>IndexError\<close>.
\<close>

definition resolve_proba :: "proba \<Rightarrow> py_error + real" where
  "resolve_proba proba_result =
     (case proba_result of
        Proba1 v \<Rightarrow> Inl IndexError
      | Proba2 rows \<Rightarrow>
          (case rows of
             [] \<Rightarrow> Inl IndexError
           | row # _ \<Rightarrow>
               (if length row = 2 then Inr (row ! 1)
                else if length row = 1 then Inr (row ! 0)
                else if row = [] then Inl IndexError
                else Inr (last row))))"

text \<open>The body of the \<^verbatim>\<open>try\<close> of lines 214-221.\<close>

definition model_prob :: "classifier \<Rightarrow> ndarray \<Rightarrow> py_error + real" where
  "model_prob m X =
     (case predict_proba m of
        None \<Rightarrow> Inl AttributeError
      | Some f \<Rightarrow> (case f X of Inl e \<Rightarrow> Inl e | Inr proba_result \<Rightarrow> resolve_proba proba_result))"

text \<open>Lines 213-226: the value of \<^verbatim>\<open>prob\<close> before it is clamped.\<close>

definition raw_prob :: "main_globals \<Rightarrow> ndarray \<Rightarrow> string \<Rightarrow> real" where
  "raw_prob g X doc =
     (case model g of
        None \<Rightarrow> gnn_pred (gnn_df g) doc
      | Some m \<Rightarrow> (case model_prob m X of Inr p \<Rightarrow> p | Inl e \<Rightarrow> gnn_pred (gnn_df g) doc))"

text \<open>Lines 227-234: clamp, label, and build the result.\<close>

definition scoring_result_of :: "real \<Rightarrow> scoring_result" where
  "scoring_result_of raw =
     (let prob = max 0.0 (min 1.0 raw);
          risk = classify prob
      in \<lparr> fraud_probability = prob * 100,
           risk_level = risk,
           confidence = (1 - prob) * 100,
           status = (if risk = ''High'' then ''Flagged'' else ''Verified'') \<rparr>)"

definition predict_fraud ::
  "main_globals \<Rightarrow> string \<Rightarrow> string \<Rightarrow> string option \<Rightarrow> string \<Rightarrow> py_error + scoring_result" where
  "predict_fraud g name doc address dtype =
     (case extract_features name doc address dtype of
        Inl e \<Rightarrow> Inl e
      | Inr X \<Rightarrow>
          Inr (scoring_result_of
                 (raw_prob g (transform_stage (scaler g) (transform_stage (feature_selector g) X)) doc)))"

subsection \<open>The endpoint \<^verbatim>\<open>verify\<close> (lines 250-282)\<close>

text \<open>
  The audit log file: whether it can be written, whether it exists, and its lines.
\<close>

record audit_record =
  Timestamp :: string
  Name :: string
  ID_Type :: string
  Document_Number :: string
  Fraud_Risk :: string
  Fraud_Probability :: real

datatype audit_line = Header | Row audit_record

record audit_log =
  log_writable :: bool
  log_exists :: bool
  log_lines :: "audit_line list"

text \<open>
  \<^verbatim>\<open>df.to_csv(AUDIT_LOG, mode="a", header=not AUDIT_LOG.exists(), index=False)\<close>.
\<close>

definition to_csv :: "audit_log \<Rightarrow> audit_record \<Rightarrow> py_error + audit_log" where
  "to_csv lg r =
     (if log_writable lg
      then Inr (lg\<lparr> log_exists := True,
                    log_lines := log_lines lg @ (if log_exists lg then [Row r] else [Header, Row r]) \<rparr>)
      else Inl OSError)"

text \<open>
  \<open>vid\<close> and \<open>ts\<close> are the two readings of the clock. The result is the response (or
  the exception that leaves the endpoint) and the audit log afterwards.
\<close>

definition verify ::
  "main_globals \<Rightarrow> audit_log \<Rightarrow> string \<Rightarrow> string \<Rightarrow> verification_request
     \<Rightarrow> (py_error + verification_response) \<times> audit_log" where
  "verify g lg vid ts request =
     (case predict_fraud g (req_name request) (req_documentNumber request)
             (req_address request) (req_documentType request) of
        Inl e \<Rightarrow> (Inl e, lg)
      | Inr result \<Rightarrow>
          (let lg' = (case to_csv lg \<lparr> Timestamp = ts,
                                        Name = req_name request,
                                        ID_Type = req_documentType request,
                                        Document_Number = req_documentNumber request,
                                        Fraud_Risk = risk_level result,
                                        Fraud_Probability = fraud_probability result \<rparr> of
                        Inr l \<Rightarrow> l
                      | Inl e \<Rightarrow> lg)
           in (Inr \<lparr> resp_status = status result,
                     resp_id = vid,
                     resp_timestamp = ts,
                     resp_name = req_name request,
                     resp_documentNumber = req_documentNumber request,
                     resp_fraudProbability = fraud_probability result,
                     resp_riskLevel = risk_level result,
                     resp_confidence = confidence result,
                     resp_documentAuthenticity = ''Valid'',
                     resp_addressVerification =
                       (case req_address request of
                          None \<Rightarrow> ''Pending''
                        | Some a \<Rightarrow> (if a \<noteq> [] \<and> length a > 10 then ''Verified'' else ''Pending'')),
                     resp_anomalyScore = fraud_probability result,
                     resp_message = ''KYC processed successfully.'' \<rparr>,
               lg')))"

section \<open>\<^verbatim>\<open>backend/predict.py\<close>\<close>

text \<open>
  The module's globals \<^verbatim>\<open>model\<close>, \<^verbatim>\<open>scaler\<close> and \<^verbatim>\<open>selector\<close>; each is \<open>None\<close> when its
  file does not exist.
\<close>

record predict_globals =
  p_model :: "classifier option"
  p_scaler :: "transformer option"
  selector :: "transformer option"

subsection \<open>Feature engineering (lines 23-44)\<close>

text \<open>
  The dictionary \<^verbatim>\<open>doc_map\<close> and the assignment \<^verbatim>\<open>onehot[doc_map[doc_type]] = 1\<close>.
\<close>

definition doc_map :: "string \<rightharpoonup> nat" where
  "doc_map = [''AADHAR'' \<mapsto> 0, ''PAN'' \<mapsto> 1, ''UTILITY'' \<mapsto> 2]"

definition onehot_of :: "string \<Rightarrow> real list" where
  "onehot_of doc_type =
     (case doc_map doc_type of
        None \<Rightarrow> [0, 0, 0]
      | Some i \<Rightarrow> [0, 0, 0][i := 1])"

definition predict_extract_features ::
  "string \<Rightarrow> string \<Rightarrow> string option \<Rightarrow> string \<Rightarrow> py_error + ndarray" where
  "predict_extract_features name doc_number address doc_type =
     (case address of
        None \<Rightarrow> Inl TypeError
      | Some a \<Rightarrow>
          Inr [[real (length name), real (length doc_number), real (length a)]
               @ [(if str_isdigit doc_number then 1 else 0), real (card (set doc_number))]
               @ onehot_of doc_type
               @ [real (length (str_split a)),
                  real (length (str_split name)),
                  (if list_ex char_isupper name then 1 else 0),
                  (if list_ex char_isdigit name then 1 else 0)]])"

subsection \<open>Risk classification (lines 50-55)\<close>

definition classify_risk :: "real \<Rightarrow> string" where
  "classify_risk prob =
     (if prob < 33 then ''Low''
      else if prob < 66 then ''Medium''
      else ''High'')"

subsection \<open>Main prediction function (lines 61-103)\<close>

text \<open>
  \<^verbatim>\<open>round(x, 2)\<close> on a real number: to the nearest multiple of 1/100, a tie going to
  the even one. The source rounds the float it computed, which can lie on the other side
  of a tie than the real number; \<open>round2\<close> is the same function wherever the float is
  exact.
\<close>

definition round_half_even :: "real \<Rightarrow> int" where
  "round_half_even x =
     (let f = \<lfloor>x\<rfloor>; d = x - of_int f
      in if d < 1/2 then f
         else if 1/2 < d then f + 1
         else if even f then f else f + 1)"

definition round2 :: "real \<Rightarrow> real" where
  "round2 x = of_int (round_half_even (x * 100)) / 100"

record prediction =
  p_fraud_probability :: real
  fraud_risk :: string
  p_confidence :: real

text \<open>
  Steps 2 and 3: a stage that is not \<^verbatim>\<open>None\<close> is applied outside any \<^verbatim>\<open>try\<close>, so what
  it raises leaves the function.
\<close>

definition apply_if_present :: "transformer option \<Rightarrow> ndarray \<Rightarrow> py_error + ndarray" where
  "apply_if_present artifact X = (case artifact of None \<Rightarrow> Inr X | Some t \<Rightarrow> t X)"

text \<open>
  Lines 89-93: \<^verbatim>\<open>model.predict_proba(X)[0][1] * 100\<close> when the model has the method,
  otherwise 80 or 20 from the first predicted label.
\<close>

definition percent_of :: "classifier \<Rightarrow> ndarray \<Rightarrow> py_error + real" where
  "percent_of m X =
     (case predict_proba m of
        Some f \<Rightarrow>
          (case f X of
             Inl e \<Rightarrow> Inl e
           | Inr (Proba1 v) \<Rightarrow> Inl IndexError
           | Inr (Proba2 rows) \<Rightarrow>
               (case rows of
                  [] \<Rightarrow> Inl IndexError
                | row # _ \<Rightarrow> (if 1 < length row then Inr (row ! 1 * 100) else Inl IndexError)))
      | None \<Rightarrow>
          (case predict m X of
             Inl e \<Rightarrow> Inl e
           | Inr [] \<Rightarrow> Inl IndexError
           | Inr (pred # _) \<Rightarrow> Inr (if pred = 1 then 80 else 20)))"

definition run_model_prediction ::
  "predict_globals \<Rightarrow> string \<Rightarrow> string \<Rightarrow> string option \<Rightarrow> string \<Rightarrow> py_error + prediction" where
  "run_model_prediction g name doc_number address doc_type =
     (case predict_extract_features name doc_number address doc_type of
        Inl e \<Rightarrow> Inl e
      | Inr X0 \<Rightarrow>
          (case apply_if_present (selector g) X0 of
             Inl e \<Rightarrow> Inl e
           | Inr X1 \<Rightarrow>
               (case apply_if_present (p_scaler g) X1 of
                  Inl e \<Rightarrow> Inl e
                | Inr X2 \<Rightarrow>
                    (case p_model g of
                       None \<Rightarrow> Inl ValueError
                     | Some m \<Rightarrow>
                         (case percent_of m X2 of
                            Inl e \<Rightarrow> Inl e
                          | Inr raw \<Rightarrow>
                              (let prob = round2 raw
                               in Inr \<lparr> p_fraud_probability = prob,
                                        fraud_risk = classify_risk prob,
                                        p_confidence = round2 (100 - prob) \<rparr>))))))"

section \<open>Helper lemmas\<close>

subsection \<open>Risk labels\<close>

lemma classify_label: "classify p = ''Low'' \<or> classify p = ''Medium'' \<or> classify p = ''High''"
  by (simp add: classify_def)

lemma classify_clamp: "classify (max 0 (min 1 p)) = classify p"
  by (simp add: classify_def max_def min_def)

lemma classify_mono_Low: "p \<le> q \<Longrightarrow> classify q = ''Low'' \<Longrightarrow> classify p = ''Low''"
  by (simp add: classify_def split: if_splits)

lemma classify_mono_High: "p \<le> q \<Longrightarrow> classify p = ''High'' \<Longrightarrow> classify q = ''High''"
  by (simp add: classify_def split: if_splits)

lemma classify_buckets:
  "p < 0.33 \<Longrightarrow> classify p = ''Low''"
  "0.33 \<le> p \<Longrightarrow> p < 0.67 \<Longrightarrow> classify p = ''Medium''"
  "0.67 \<le> p \<Longrightarrow> classify p = ''High''"
  by (simp_all add: classify_def)

lemma classify_risk_buckets:
  "p < 33 \<Longrightarrow> classify_risk p = ''Low''"
  "33 \<le> p \<Longrightarrow> p < 66 \<Longrightarrow> classify_risk p = ''Medium''"
  "66 \<le> p \<Longrightarrow> classify_risk p = ''High''"
  by (simp_all add: classify_risk_def)

lemma classify_boundaries:
  "classify 0.33 = ''Medium''" "classify 0.67 = ''High''"
  "classify_risk 33 = ''Medium''" "classify_risk 66 = ''High''" "classify_risk 67 = ''High''"
  by (simp_all add: classify_def classify_risk_def)

subsection \<open>The result dictionary\<close>

lemma scoring_result_of_fields:
  "fraud_probability (scoring_result_of raw) = max 0 (min 1 raw) * 100"
  "risk_level (scoring_result_of raw) = classify (max 0 (min 1 raw))"
  "confidence (scoring_result_of raw) = (1 - max 0 (min 1 raw)) * 100"
  "status (scoring_result_of raw) =
     (if classify (max 0 (min 1 raw)) = ''High'' then ''Flagged'' else ''Verified'')"
  by (simp_all add: scoring_result_of_def Let_def)

lemma scoring_result_of_status:
  "(status (scoring_result_of raw) = ''Flagged'') = (risk_level (scoring_result_of raw) = ''High'')"
  "(status (scoring_result_of raw) = ''Verified'') = (risk_level (scoring_result_of raw) \<noteq> ''High'')"
  by (simp_all add: scoring_result_of_fields)

lemma scoring_result_of_half:
  "scoring_result_of 0.50 =
     \<lparr> fraud_probability = 0.50 * 100, risk_level = ''Medium'', confidence = (1 - 0.50) * 100,
       status = ''Verified'' \<rparr>"
  by (simp add: scoring_result_of_def classify_def)

lemma scoring_result_of_high: "1 \<le> raw \<Longrightarrow> scoring_result_of raw =
    \<lparr> fraud_probability = 100, risk_level = ''High'', confidence = 0, status = ''Flagged'' \<rparr>"
  by (simp add: scoring_result_of_def classify_def min_def max_def)

lemma scoring_result_of_low: "raw \<le> 0 \<Longrightarrow> scoring_result_of raw =
    \<lparr> fraud_probability = 0, risk_level = ''Low'', confidence = 100, status = ''Verified'' \<rparr>"
  by (simp add: scoring_result_of_def classify_def min_def max_def)

subsection \<open>Feature extraction\<close>

lemma extract_features_returns: "\<exists>X. extract_features name doc (Some a) dtype = Inr X"
  by (simp add: extract_features_def)

lemma john_doe_features:
  "extract_features ''John Doe'' ''123456789'' (Some ''123 Main St'') ''PASSPORT''
     = Inr [[8, 9, 11, 1, 9, 0, 0, 1, 3, 2, 1, 0]]"
  by (simp add: extract_features_def str_isdigit_def char_isdigit_def char_isupper_def
      char_isspace_def str_split_def card_set)

lemma john_doe_features_predict:
  "predict_extract_features ''John Doe'' ''123456789'' (Some ''123 Main St'') ''PASSPORT''
     = Inr [[8, 9, 11, 1, 9, 0, 0, 0, 3, 2, 1, 0]]"
  by (simp add: predict_extract_features_def onehot_of_def doc_map_def str_isdigit_def
      char_isdigit_def char_isupper_def char_isspace_def str_split_def card_set)

text \<open>The two extractors agree on every document type but \<^verbatim>\<open>PASSPORT\<close>.\<close>

lemma features_agree:
  "dtype \<noteq> ''PASSPORT'' \<Longrightarrow>
   predict_extract_features name doc address dtype = extract_features name doc address dtype"
  by (simp add: predict_extract_features_def extract_features_def onehot_of_def doc_map_def
      split: option.splits)

subsection \<open>The fallback lookup\<close>

lemma gnn_pred_empty: "frame_rows df = [] \<Longrightarrow> gnn_pred df doc = 0.50"
  by (simp add: gnn_pred_def gnn_lookup_def)

lemma filter_no_key: "doc \<notin> fst ` set rows \<Longrightarrow> filter (\<lambda>r. fst r = doc) rows = []"
  by (induction rows) auto

lemma gnn_pred_missing: "doc \<notin> fst ` set (frame_rows df) \<Longrightarrow> gnn_pred df doc = 0.50"
  by (simp add: gnn_pred_def gnn_lookup_def filter_no_key)

lemma gnn_pred_error: "gnn_lookup df doc = Inl e \<Longrightarrow> gnn_pred df doc = 0.50"
  by (simp add: gnn_pred_def)

lemma gnn_pred_found:
  "has_doc_column df \<Longrightarrow> has_prob_column df \<Longrightarrow>
   filter (\<lambda>r. fst r = doc) (frame_rows df) = (k, FloatCell p) # rest \<Longrightarrow>
   gnn_pred df doc = p"
  by (auto simp add: gnn_pred_def gnn_lookup_def)

subsection \<open>The classifier and the pipeline\<close>

lemma transform_stage_absent: "transform_stage None X = X"
  by (simp add: transform_stage_def)

lemma transform_stage_raises: "t X = Inl e \<Longrightarrow> transform_stage (Some t) X = X"
  by (simp add: transform_stage_def)

lemma transform_stage_applies: "t X = Inr Y \<Longrightarrow> transform_stage (Some t) X = Y"
  by (simp add: transform_stage_def)

lemma raw_prob_no_model: "model g = None \<Longrightarrow> raw_prob g X doc = gnn_pred (gnn_df g) doc"
  by (simp add: raw_prob_def)

lemma raw_prob_model: "model g = Some m \<Longrightarrow> model_prob m X = Inr q \<Longrightarrow> raw_prob g X doc = q"
  by (simp add: raw_prob_def)

lemma raw_prob_model_fails:
  "model g = Some m \<Longrightarrow> model_prob m X = Inl e \<Longrightarrow> raw_prob g X doc = gnn_pred (gnn_df g) doc"
  by (simp add: raw_prob_def)

lemma model_prob_matrix:
  "predict_proba m = Some f \<Longrightarrow> f X = Inr (Proba2 (row # rest)) \<Longrightarrow>
   model_prob m X =
     (if length row = 2 then Inr (row ! 1)
      else if length row = 1 then Inr (row ! 0)
      else if row = [] then Inl IndexError
      else Inr (last row))"
  by (simp add: model_prob_def resolve_proba_def)

lemma predict_fraud_of_features:
  "extract_features name doc address dtype = Inr X \<Longrightarrow>
   predict_fraud g name doc address dtype =
     Inr (scoring_result_of
            (raw_prob g (transform_stage (scaler g) (transform_stage (feature_selector g) X)) doc))"
  by (simp add: predict_fraud_def)

lemma predict_fraud_returns: "\<exists>r. predict_fraud g name doc (Some a) dtype = Inr r"
  using extract_features_returns [of name doc a dtype] predict_fraud_of_features by blast

lemma predict_fraud_None: "predict_fraud g name doc None dtype = Inl TypeError"
  by (simp add: predict_fraud_def extract_features_def)

lemma predict_fraud_initial:
  "predict_fraud initial_globals name doc (Some a) dtype =
     Inr \<lparr> fraud_probability = 50, risk_level = ''Medium'', confidence = 50, status = ''Verified'' \<rparr>"
  by (simp add: predict_fraud_def extract_features_def initial_globals_def empty_frame_def
      transform_stage_def raw_prob_def gnn_pred_def gnn_lookup_def scoring_result_of_def
      classify_def)

lemma verify_returns:
  "\<exists>resp lg'. verify g lg vid ts
      \<lparr> req_name = name, req_documentNumber = doc, req_address = Some a, req_documentType = dtype \<rparr>
    = (Inr resp, lg')"
proof -
  obtain r where "predict_fraud g name doc (Some a) dtype = Inr r"
    using predict_fraud_returns by blast
  then show ?thesis
    by (simp add: verify_def Let_def)
qed

lemma run_model_prediction_no_model:
  "p_model g = None \<Longrightarrow> run_model_prediction g name doc address dtype \<noteq> Inr r"
  by (simp add: run_model_prediction_def split: sum.splits option.splits)

lemma model_prob_no_entry:
  "predict_proba m = Some f \<Longrightarrow>
   f X = Inr P \<Longrightarrow> P = Proba1 v \<or> P = Proba2 [] \<or> P = Proba2 ([] # rest) \<Longrightarrow>
   model_prob m X = Inl IndexError"
  by (auto simp add: model_prob_def resolve_proba_def)

subsection \<open>The second pipeline\<close>

lemma round_half_even_range:
  assumes "0 \<le> y" and "y \<le> of_int n"
  shows "0 \<le> round_half_even y \<and> round_half_even y \<le> n"
proof -
  have f0: "0 \<le> \<lfloor>y\<rfloor>" using assms(1) by simp
  have fn: "\<lfloor>y\<rfloor> \<le> n" using assms(2) by (simp add: floor_le_iff)
  show ?thesis
  proof (cases "y = of_int n")
    case True
    then show ?thesis using assms(1) by (simp add: round_half_even_def)
  next
    case False
    with assms(2) have "y < of_int n" by simp
    then have "\<lfloor>y\<rfloor> < n" by (simp add: floor_less_iff)
    then have "\<lfloor>y\<rfloor> + 1 \<le> n" by simp
    with f0 fn show ?thesis by (simp add: round_half_even_def Let_def)
  qed
qed

lemma round2_range:
  assumes "0 \<le> x" and "x \<le> 100"
  shows "0 \<le> round2 x \<and> round2 x \<le> 100"
proof -
  have "0 \<le> x * 100" using assms(1) by simp
  moreover have "x * 100 \<le> of_int 10000" using assms(2) by simp
  ultimately have k: "0 \<le> round_half_even (x * 100) \<and> round_half_even (x * 100) \<le> 10000"
    by (rule round_half_even_range)
  define k where "k = round_half_even (x * 100)"
  from k have "0 \<le> k" "k \<le> 10000" by (simp_all add: k_def)
  then have "(0::real) \<le> of_int k" "of_int k \<le> (10000::real)" by simp_all
  then have "0 \<le> of_int k / (100::real) \<and> of_int k / (100::real) \<le> 100" by simp
  then show ?thesis by (simp add: round2_def k_def)
qed

lemma percent_of_predict_only:
  assumes "predict_proba m = None" and "percent_of m X = Inr raw"
  shows "raw = 80 \<or> raw = 20"
proof (cases "predict m X")
  case (Inl e)
  with assms show ?thesis by (simp add: percent_of_def)
next
  case (Inr labels)
  with assms show ?thesis
    by (cases labels) (simp_all add: percent_of_def split: if_splits)
qed

lemma percent_of_proba:
  assumes "predict_proba m = Some f" and "percent_of m X = Inr raw"
  shows "\<exists>row rest. f X = Inr (Proba2 (row # rest)) \<and> 1 < length row \<and> raw = row ! 1 * 100"
proof (cases "f X")
  case (Inl e)
  with assms show ?thesis by (simp add: percent_of_def)
next
  case (Inr P)
  show ?thesis
  proof (cases P)
    case (Proba1 v)
    with Inr assms show ?thesis by (simp add: percent_of_def)
  next
    case (Proba2 rows)
    show ?thesis
    proof (cases rows)
      case Nil
      with Proba2 Inr assms show ?thesis by (simp add: percent_of_def)
    next
      case (Cons row rest)
      with Proba2 Inr assms show ?thesis
        by (simp add: percent_of_def split: if_splits)
    qed
  qed
qed

lemma percent_of_range:
  assumes "percent_of m X = Inr raw"
    and "\<And>f Y P. predict_proba m = Some f \<Longrightarrow> f Y = Inr (Proba2 P) \<Longrightarrow>
           list_all (list_all (\<lambda>x. 0 \<le> x \<and> x \<le> 1)) P"
  shows "0 \<le> raw \<and> raw \<le> 100"
proof (cases "predict_proba m")
  case None
  from percent_of_predict_only [OF None assms(1)] show ?thesis by auto
next
  case (Some f)
  from percent_of_proba [OF Some assms(1)]
  obtain row rest where P: "f X = Inr (Proba2 (row # rest))"
    and l: "1 < length row" and raw: "raw = row ! 1 * 100"
    by blast
  from assms(2) [OF Some P] have "list_all (\<lambda>x. 0 \<le> x \<and> x \<le> 1) row" by simp
  with l have "0 \<le> row ! 1 \<and> row ! 1 \<le> 1" by (simp add: list_all_length)
  with raw show ?thesis by simp
qed

lemma run_model_prediction_Inr:
  assumes "run_model_prediction pg name doc address dtype = Inr r"
  shows "\<exists>m X raw. p_model pg = Some m \<and> percent_of m X = Inr raw \<and>
           r = \<lparr> p_fraud_probability = round2 raw, fraud_risk = classify_risk (round2 raw),
                 p_confidence = round2 (100 - round2 raw) \<rparr>"
proof (cases "predict_extract_features name doc address dtype")
  case (Inl e)
  with assms show ?thesis by (simp add: run_model_prediction_def)
next
  case X0: (Inr X0)
  show ?thesis
  proof (cases "apply_if_present (selector pg) X0")
    case (Inl e)
    with X0 assms show ?thesis by (simp add: run_model_prediction_def)
  next
    case X1: (Inr X1)
    show ?thesis
    proof (cases "apply_if_present (p_scaler pg) X1")
      case (Inl e)
      with X0 X1 assms show ?thesis by (simp add: run_model_prediction_def)
    next
      case X2: (Inr X2)
      show ?thesis
      proof (cases "p_model pg")
        case None
        with X0 X1 X2 assms show ?thesis by (simp add: run_model_prediction_def)
      next
        case (Some m)
        show ?thesis
        proof (cases "percent_of m X2")
          case (Inl e)
          with Some X0 X1 X2 assms show ?thesis by (simp add: run_model_prediction_def)
        next
          case (Inr raw)
          with Some X0 X1 X2 assms
          have "r = \<lparr> p_fraud_probability = round2 raw, fraud_risk = classify_risk (round2 raw),
                 p_confidence = round2 (100 - round2 raw) \<rparr>"
            by (simp add: run_model_prediction_def Let_def)
          with Some Inr show ?thesis by blast
        qed
      qed
    qed
  qed
qed

section \<open>The claims\<close>

subsection \<open>C1: which entry points always return\<close>

text \<open>
  C1, as stated, fails for \<^verbatim>\<open>predict.run_model_prediction\<close>: with no classifier loaded, the
  guard \<^verbatim>\<open>if model is None: raise ValueError(...)\<close> raises on the function's own default
  arguments.
\<close>

theorem run_model_prediction_absent_model_raises:
  "run_model_prediction \<lparr> p_model = None, p_scaler = None, selector = None \<rparr>
     ''Test User'' ''123456789'' (Some ''Sample address 123'') ''AADHAR'' = Inl ValueError"
  by (simp add: run_model_prediction_def predict_extract_features_def apply_if_present_def)

text \<open>
  C1 (amended): for every request whose string fields are non-null, and for every state of
  the artifacts, of the fallback table and of the audit log, \<^verbatim>\<open>main.predict_fraud\<close> returns a
  result and \<^verbatim>\<open>main.verify\<close> returns a response: no absent artifact, transform failure,
  classifier failure, fallback miss or audit-write failure reaches the caller.
  \<^verbatim>\<open>predict.run_model_prediction\<close> never returns a result when the classifier is absent; with
  no artifact loaded at all it raises \<^verbatim>\<open>ValueError\<close>.
\<close>

theorem main_pipeline_always_returns:
  "(\<exists>r. predict_fraud g name doc (Some a) dtype = Inr r) \<and>
   (\<exists>resp lg'. verify g lg vid ts
      \<lparr> req_name = name, req_documentNumber = doc, req_address = Some a, req_documentType = dtype \<rparr>
        = (Inr resp, lg')) \<and>
   (\<forall>r. run_model_prediction (pg\<lparr> p_model := None \<rparr>) name doc (Some a) dtype \<noteq> Inr r) \<and>
   run_model_prediction \<lparr> p_model = None, p_scaler = None, selector = None \<rparr> name doc (Some a) dtype
     = Inl ValueError"
proof -
  have "\<forall>r. run_model_prediction (pg\<lparr> p_model := None \<rparr>) name doc (Some a) dtype \<noteq> Inr r"
    using run_model_prediction_no_model [of "pg\<lparr> p_model := None \<rparr>"] by simp
  moreover have "run_model_prediction \<lparr> p_model = None, p_scaler = None, selector = None \<rparr>
      name doc (Some a) dtype = Inl ValueError"
    by (simp add: run_model_prediction_def predict_extract_features_def apply_if_present_def)
  ultimately show ?thesis
    using predict_fraud_returns [of g name doc a dtype] verify_returns [of g lg vid ts name doc a dtype]
    by blast
qed

text \<open>
  An instance where everything fails at once: the selector, the scaler and the classifier
  raise, the fallback frame lacks its columns, and the audit log cannot be written. The
  endpoint answers with the neutral result and leaves the log as it was.
\<close>

theorem main_pipeline_always_returns_witness:
  "verify
     \<lparr> model = Some \<lparr> predict_proba = Some (\<lambda>X. Inl ArtifactError), predict = (\<lambda>X. Inl ArtifactError) \<rparr>,
       scaler = Some (\<lambda>X. Inl ArtifactError),
       feature_selector = Some (\<lambda>X. Inl ArtifactError),
       gnn_df = \<lparr> has_doc_column = False, has_prob_column = False,
                  frame_rows = [(''111'', BadCell)] \<rparr> \<rparr>
     \<lparr> log_writable = False, log_exists = False, log_lines = [] \<rparr>
     ''VER1'' ''2024-01-01T00:00:00''
     \<lparr> req_name = ''John Doe'', req_documentNumber = ''123456789'',
       req_address = Some ''123 Main St'', req_documentType = ''PASSPORT'' \<rparr>
   = (Inr \<lparr> resp_status = ''Verified'', resp_id = ''VER1'',
            resp_timestamp = ''2024-01-01T00:00:00'', resp_name = ''John Doe'',
            resp_documentNumber = ''123456789'', resp_fraudProbability = 50,
            resp_riskLevel = ''Medium'', resp_confidence = 50,
            resp_documentAuthenticity = ''Valid'', resp_addressVerification = ''Verified'',
            resp_anomalyScore = 50, resp_message = ''KYC processed successfully.'' \<rparr>,
      \<lparr> log_writable = False, log_exists = False, log_lines = [] \<rparr>)"
  using main_pipeline_always_returns [of
      "\<lparr> model = Some \<lparr> predict_proba = Some (\<lambda>X. Inl ArtifactError), predict = (\<lambda>X. Inl ArtifactError) \<rparr>,
       scaler = Some (\<lambda>X. Inl ArtifactError),
       feature_selector = Some (\<lambda>X. Inl ArtifactError),
       gnn_df = \<lparr> has_doc_column = False, has_prob_column = False,
                  frame_rows = [(''111'', BadCell)] \<rparr> \<rparr>"
      "''John Doe''" "''123456789''" "''123 Main St''" "''PASSPORT''"
      "\<lparr> log_writable = False, log_exists = False, log_lines = [] \<rparr>"
      "''VER1''" "''2024-01-01T00:00:00''"]
  by (simp add: verify_def predict_fraud_def extract_features_def transform_stage_def
      raw_prob_def model_prob_def gnn_pred_def gnn_lookup_def scoring_result_of_def classify_def
      to_csv_def)

subsection \<open>C2: the risk buckets of the two classifiers\<close>

text \<open>
  C2: the buckets are \<open>p < 0.33\<close>, \<open>0.33 \<le> p < 0.67\<close> and \<open>p \<ge> 0.67\<close> in every
  implementation. \<^verbatim>\<open>main.classify\<close> has them (\<open>classify_buckets\<close>, \<open>classify_boundaries\<close>,
  \<open>classify_mono_Low\<close>, \<open>classify_mono_High\<close>); \<^verbatim>\<open>predict.classify_risk\<close> puts its upper threshold at 66, not 67.
  At 66.5 percent it answers High where the claim, and \<^verbatim>\<open>main.classify\<close> at 0.665, say
  Medium; the two pipelines disagree on the same classifier output.
\<close>

theorem classify_risk_upper_threshold_is_66:
  "classify_risk 66.5 = ''High'' \<and> classify (66.5 / 100) = ''Medium'' \<and>
   run_model_prediction
     \<lparr> p_model = Some \<lparr> predict_proba = Some (\<lambda>X. Inr (Proba2 [[0.335, 0.665]])),
                        predict = (\<lambda>X. Inr [1]) \<rparr>,
       p_scaler = None, selector = None \<rparr>
     ''Test User'' ''123456789'' (Some ''Sample address 123'') ''AADHAR''
     = Inr \<lparr> p_fraud_probability = 66.5, fraud_risk = ''High'', p_confidence = 33.5 \<rparr> \<and>
   predict_fraud
     (initial_globals\<lparr> model := Some \<lparr> predict_proba = Some (\<lambda>X. Inr (Proba2 [[0.335, 0.665]])),
                                         predict = (\<lambda>X. Inr [1]) \<rparr> \<rparr>)
     ''Test User'' ''123456789'' (Some ''Sample address 123'') ''AADHAR''
     = Inr \<lparr> fraud_probability = 66.5, risk_level = ''Medium'', confidence = 33.5,
             status = ''Verified'' \<rparr>"
proof -
  have a: "classify_risk 66.5 = ''High''" "classify (66.5 / 100) = ''Medium''"
    by (simp_all add: classify_risk_def classify_def)
  have r: "round2 (133 / 2) = 133 / 2" "round2 (67 / 2) = 67 / 2"
    "classify_risk (133 / 2) = ''High''"
    by (simp_all add: round2_def round_half_even_def classify_risk_def)
  have b: "run_model_prediction
     \<lparr> p_model = Some \<lparr> predict_proba = Some (\<lambda>X. Inr (Proba2 [[0.335, 0.665]])),
                        predict = (\<lambda>X. Inr [1]) \<rparr>,
       p_scaler = None, selector = None \<rparr>
     ''Test User'' ''123456789'' (Some ''Sample address 123'') ''AADHAR''
     = Inr \<lparr> p_fraud_probability = 66.5, fraud_risk = ''High'', p_confidence = 33.5 \<rparr>"
    by (simp add: run_model_prediction_def predict_extract_features_def apply_if_present_def
        percent_of_def Let_def r)
  have c: "predict_fraud
     (initial_globals\<lparr> model := Some \<lparr> predict_proba = Some (\<lambda>X. Inr (Proba2 [[0.335, 0.665]])),
                                         predict = (\<lambda>X. Inr [1]) \<rparr> \<rparr>)
     ''Test User'' ''123456789'' (Some ''Sample address 123'') ''AADHAR''
     = Inr \<lparr> fraud_probability = 66.5, risk_level = ''Medium'', confidence = 33.5,
             status = ''Verified'' \<rparr>"
    by (simp add: predict_fraud_def extract_features_def initial_globals_def transform_stage_def
        raw_prob_def model_prob_def resolve_proba_def scoring_result_of_def classify_def)
  from a b c show ?thesis by blast
qed

subsection \<open>C3: the scale of the result\<close>

text \<open>
  C3, as stated, fails. The result of \<^verbatim>\<open>main.predict_fraud\<close> carries the probability and the
  confidence as percentages: with nothing loaded both are 50, neither lies in [0,1], and
  the confidence is not one minus the probability. The result of
  \<^verbatim>\<open>predict.run_model_prediction\<close> is in percent too and is not clamped: a classifier that
  answers 1.5 for the positive class gives 150 and -50, outside [0,100] as well.
\<close>

theorem scoring_result_not_in_unit_interval:
  "predict_fraud initial_globals ''John Doe'' ''123456789'' (Some ''123 Main St'') ''PASSPORT''
     = Inr \<lparr> fraud_probability = 50, risk_level = ''Medium'', confidence = 50,
             status = ''Verified'' \<rparr> \<and>
   \<not> fraud_probability (projr (predict_fraud initial_globals
        ''John Doe'' ''123456789'' (Some ''123 Main St'') ''PASSPORT'')) \<le> 1 \<and>
   \<not> confidence (projr (predict_fraud initial_globals
        ''John Doe'' ''123456789'' (Some ''123 Main St'') ''PASSPORT'')) \<le> 1 \<and>
   confidence (projr (predict_fraud initial_globals
        ''John Doe'' ''123456789'' (Some ''123 Main St'') ''PASSPORT''))
     \<noteq> 1 - fraud_probability (projr (predict_fraud initial_globals
        ''John Doe'' ''123456789'' (Some ''123 Main St'') ''PASSPORT'')) \<and>
   run_model_prediction
     \<lparr> p_model = Some \<lparr> predict_proba = Some (\<lambda>X. Inr (Proba2 [[- 0.5, 1.5]])),
                        predict = (\<lambda>X. Inr [1]) \<rparr>,
       p_scaler = None, selector = None \<rparr>
     ''Test User'' ''123456789'' (Some ''Sample address 123'') ''AADHAR''
     = Inr \<lparr> p_fraud_probability = 150, fraud_risk = ''High'', p_confidence = - 50 \<rparr> \<and>
   \<not> p_fraud_probability (projr (run_model_prediction
     \<lparr> p_model = Some \<lparr> predict_proba = Some (\<lambda>X. Inr (Proba2 [[- 0.5, 1.5]])),
                        predict = (\<lambda>X. Inr [1]) \<rparr>,
       p_scaler = None, selector = None \<rparr>
     ''Test User'' ''123456789'' (Some ''Sample address 123'') ''AADHAR'')) \<le> 100 \<and>
   \<not> 0 \<le> p_confidence (projr (run_model_prediction
     \<lparr> p_model = Some \<lparr> predict_proba = Some (\<lambda>X. Inr (Proba2 [[- 0.5, 1.5]])),
                        predict = (\<lambda>X. Inr [1]) \<rparr>,
       p_scaler = None, selector = None \<rparr>
     ''Test User'' ''123456789'' (Some ''Sample address 123'') ''AADHAR''))"
proof -
  have r: "round2 150 = 150" "round2 (- 50) = - 50" "classify_risk 150 = ''High''"
    by (simp_all add: round2_def round_half_even_def classify_risk_def)
  have e: "run_model_prediction
     \<lparr> p_model = Some \<lparr> predict_proba = Some (\<lambda>X. Inr (Proba2 [[- 0.5, 1.5]])),
                        predict = (\<lambda>X. Inr [1]) \<rparr>,
       p_scaler = None, selector = None \<rparr>
     ''Test User'' ''123456789'' (Some ''Sample address 123'') ''AADHAR''
     = Inr \<lparr> p_fraud_probability = 150, fraud_risk = ''High'', p_confidence = - 50 \<rparr>"
    by (simp add: run_model_prediction_def predict_extract_features_def apply_if_present_def
        percent_of_def Let_def r)
  show ?thesis
    unfolding e predict_fraud_initial by simp
qed

text \<open>
  C3 (amended): for every request with a non-null address, the result of
  \<^verbatim>\<open>main.predict_fraud\<close> has \<open>fraud_probability = p * 100\<close> and
  \<open>confidence = (1 - p) * 100\<close> for a probability \<open>p\<close> in [0,1], the one that is
  bucketed; both lie in [0,100]. The status is Flagged if and only if the risk level is
  High, and Verified otherwise. A result of \<^verbatim>\<open>predict.run_model_prediction\<close> has no status;
  when every probability its classifier returns lies in [0,1], its fraud probability and
  its confidence lie in [0,100], and its confidence is \<^verbatim>\<open>round(100 - fraud_probability, 2)\<close>.
\<close>

theorem scoring_result_percent_scale:
  "(\<exists>r p. predict_fraud g name doc (Some a) dtype = Inr r \<and>
      0 \<le> p \<and> p \<le> 1 \<and>
      fraud_probability r = p * 100 \<and> confidence r = (1 - p) * 100 \<and>
      risk_level r = classify p \<and>
      0 \<le> fraud_probability r \<and> fraud_probability r \<le> 100 \<and>
      0 \<le> confidence r \<and> confidence r \<le> 100 \<and>
      (status r = ''Flagged'') = (risk_level r = ''High'') \<and>
      (status r = ''Verified'') = (risk_level r \<noteq> ''High'')) \<and>
   (run_model_prediction pg name doc address dtype = Inr r' \<and> p_model pg = Some m \<and>
      (\<forall>f Y P. predict_proba m = Some f \<and> f Y = Inr (Proba2 P)
         \<longrightarrow> list_all (list_all (\<lambda>x. 0 \<le> x \<and> x \<le> 1)) P)
    \<longrightarrow> 0 \<le> p_fraud_probability r' \<and> p_fraud_probability r' \<le> 100 \<and>
        0 \<le> p_confidence r' \<and> p_confidence r' \<le> 100 \<and>
        p_confidence r' = round2 (100 - p_fraud_probability r'))"
proof -
  obtain X where X: "extract_features name doc (Some a) dtype = Inr X"
    using extract_features_returns by blast
  define raw where
    "raw = raw_prob g (transform_stage (scaler g) (transform_stage (feature_selector g) X)) doc"
  define p :: real where "p = max 0 (min 1 raw)"
  have r: "predict_fraud g name doc (Some a) dtype = Inr (scoring_result_of raw)"
    using predict_fraud_of_features [OF X] by (simp add: raw_def)
  have p: "0 \<le> p" "p \<le> 1" by (simp_all add: p_def)
  have f: "fraud_probability (scoring_result_of raw) = p * 100"
    "confidence (scoring_result_of raw) = (1 - p) * 100"
    "risk_level (scoring_result_of raw) = classify p"
    by (simp_all add: scoring_result_of_fields p_def)
  have "0 \<le> fraud_probability (scoring_result_of raw)"
    "fraud_probability (scoring_result_of raw) \<le> 100"
    "0 \<le> confidence (scoring_result_of raw)"
    "confidence (scoring_result_of raw) \<le> 100"
    using p by (simp_all add: f)
  with r p f scoring_result_of_status [of raw]
  have main: "\<exists>r p. predict_fraud g name doc (Some a) dtype = Inr r \<and>
      0 \<le> p \<and> p \<le> 1 \<and>
      fraud_probability r = p * 100 \<and> confidence r = (1 - p) * 100 \<and>
      risk_level r = classify p \<and>
      0 \<le> fraud_probability r \<and> fraud_probability r \<le> 100 \<and>
      0 \<le> confidence r \<and> confidence r \<le> 100 \<and>
      (status r = ''Flagged'') = (risk_level r = ''High'') \<and>
      (status r = ''Verified'') = (risk_level r \<noteq> ''High'')"
    by blast
  have other: "0 \<le> p_fraud_probability r' \<and> p_fraud_probability r' \<le> 100 \<and>
        0 \<le> p_confidence r' \<and> p_confidence r' \<le> 100 \<and>
        p_confidence r' = round2 (100 - p_fraud_probability r')"
    if ret: "run_model_prediction pg name doc address dtype = Inr r'"
      and m: "p_model pg = Some m"
      and unit: "\<forall>f Y P. predict_proba m = Some f \<and> f Y = Inr (Proba2 P)
         \<longrightarrow> list_all (list_all (\<lambda>x. 0 \<le> x \<and> x \<le> 1)) P"
  proof -
    from run_model_prediction_Inr [OF ret] m
    obtain Y q where q: "percent_of m Y = Inr q"
      and r': "r' = \<lparr> p_fraud_probability = round2 q, fraud_risk = classify_risk (round2 q),
                 p_confidence = round2 (100 - round2 q) \<rparr>"
      by auto
    from unit have "\<And>f Y P. predict_proba m = Some f \<Longrightarrow> f Y = Inr (Proba2 P) \<Longrightarrow>
           list_all (list_all (\<lambda>x. 0 \<le> x \<and> x \<le> 1)) P"
      by blast
    from percent_of_range [OF q this] have "0 \<le> q \<and> q \<le> 100" .
    then have b1: "0 \<le> round2 q \<and> round2 q \<le> 100" by (simp add: round2_range)
    then have "0 \<le> 100 - round2 q \<and> 100 - round2 q \<le> 100" by simp
    then have b2: "0 \<le> round2 (100 - round2 q) \<and> round2 (100 - round2 q) \<le> 100"
      by (simp add: round2_range)
    from b1 b2 show ?thesis by (simp add: r')
  qed
  from main other show ?thesis by blast
qed

text \<open>
  The theorem at the scenario request, with a classifier that answers 0.75 for the second
  pipeline, which then returns 75, High and 25.
\<close>

theorem scoring_result_percent_scale_witness:
  "(\<exists>r p. predict_fraud initial_globals ''John Doe'' ''123456789'' (Some ''123 Main St'') ''PASSPORT''
        = Inr r \<and>
      0 \<le> p \<and> p \<le> 1 \<and>
      fraud_probability r = p * 100 \<and> confidence r = (1 - p) * 100 \<and>
      risk_level r = classify p \<and>
      0 \<le> fraud_probability r \<and> fraud_probability r \<le> 100 \<and>
      0 \<le> confidence r \<and> confidence r \<le> 100 \<and>
      (status r = ''Flagged'') = (risk_level r = ''High'') \<and>
      (status r = ''Verified'') = (risk_level r \<noteq> ''High'')) \<and>
   run_model_prediction
     \<lparr> p_model = Some \<lparr> predict_proba = Some (\<lambda>X. Inr (Proba2 [[0.25, 0.75]])),
                        predict = (\<lambda>X. Inr [1]) \<rparr>,
       p_scaler = None, selector = None \<rparr>
     ''John Doe'' ''123456789'' (Some ''123 Main St'') ''PASSPORT''
     = Inr \<lparr> p_fraud_probability = 75, fraud_risk = ''High'', p_confidence = 25 \<rparr> \<and>
   0 \<le> p_fraud_probability \<lparr> p_fraud_probability = 75, fraud_risk = ''High'', p_confidence = 25 \<rparr> \<and>
   p_fraud_probability \<lparr> p_fraud_probability = 75, fraud_risk = ''High'', p_confidence = 25 \<rparr> \<le> 100 \<and>
   0 \<le> p_confidence \<lparr> p_fraud_probability = 75, fraud_risk = ''High'', p_confidence = 25 \<rparr> \<and>
   p_confidence \<lparr> p_fraud_probability = 75, fraud_risk = ''High'', p_confidence = 25 \<rparr> \<le> 100 \<and>
   p_confidence \<lparr> p_fraud_probability = 75, fraud_risk = ''High'', p_confidence = 25 \<rparr>
     = round2 (100 - p_fraud_probability
         \<lparr> p_fraud_probability = 75, fraud_risk = ''High'', p_confidence = 25 \<rparr>)"
proof -
  let ?m = "\<lparr> predict_proba = Some (\<lambda>X :: ndarray. Inr (Proba2 [[0.25, 0.75]]) :: py_error + proba),
              predict = (\<lambda>X :: ndarray. Inr [1] :: py_error + int list) \<rparr>"
  let ?pg = "\<lparr> p_model = Some ?m, p_scaler = None, selector = None \<rparr>"
  let ?r = "\<lparr> p_fraud_probability = 75, fraud_risk = ''High'', p_confidence = 25 \<rparr>"
  have r: "round2 75 = 75" "round2 25 = 25" "classify_risk 75 = ''High''"
    by (simp_all add: round2_def round_half_even_def classify_risk_def)
  have e: "run_model_prediction ?pg ''John Doe'' ''123456789'' (Some ''123 Main St'') ''PASSPORT''
      = Inr ?r"
    by (simp add: run_model_prediction_def predict_extract_features_def apply_if_present_def
        percent_of_def Let_def r)
  have m: "p_model ?pg = Some ?m" by simp
  have u: "\<forall>f Y P. predict_proba ?m = Some f \<and> f Y = Inr (Proba2 P)
         \<longrightarrow> list_all (list_all (\<lambda>x. 0 \<le> x \<and> x \<le> 1)) P"
    by auto
  note T = scoring_result_percent_scale [of initial_globals "''John Doe''" "''123456789''"
      "''123 Main St''" "''PASSPORT''" ?pg "Some ''123 Main St''" ?r ?m]
  from T e m u have "0 \<le> p_fraud_probability ?r \<and> p_fraud_probability ?r \<le> 100 \<and>
        0 \<le> p_confidence ?r \<and> p_confidence ?r \<le> 100 \<and>
        p_confidence ?r = round2 (100 - p_fraud_probability ?r)"
    by blast
  with T e show ?thesis by blast
qed

subsection \<open>C4: the fallback lookup\<close>

text \<open>
  C4, as stated, fails in its last part: with the classifier absent and no row for the
  document number, the lookup answers 0.50, but the probability the pipeline yields in
  its result is 50, not 0.50.
\<close>

theorem missing_key_is_reported_as_50:
  "gnn_pred \<lparr> has_doc_column = True, has_prob_column = True,
              frame_rows = [(''111'', FloatCell 0.75)] \<rparr> ''123456789'' = 0.50 \<and>
   predict_fraud
     (initial_globals\<lparr> gnn_df := \<lparr> has_doc_column = True, has_prob_column = True,
          frame_rows = [(''111'', FloatCell 0.75)] \<rparr> \<rparr>)
     ''John Doe'' ''123456789'' (Some ''123 Main St'') ''PASSPORT''
     = Inr \<lparr> fraud_probability = 50, risk_level = ''Medium'', confidence = 50,
             status = ''Verified'' \<rparr> \<and>
   fraud_probability (projr (predict_fraud
     (initial_globals\<lparr> gnn_df := \<lparr> has_doc_column = True, has_prob_column = True,
          frame_rows = [(''111'', FloatCell 0.75)] \<rparr> \<rparr>)
     ''John Doe'' ''123456789'' (Some ''123 Main St'') ''PASSPORT'')) \<noteq> 0.50"
proof -
  have g: "gnn_pred \<lparr> has_doc_column = True, has_prob_column = True,
              frame_rows = [(''111'', FloatCell 0.75)] \<rparr> ''123456789'' = 0.50"
    by (simp add: gnn_pred_def gnn_lookup_def)
  have p: "predict_fraud
     (initial_globals\<lparr> gnn_df := \<lparr> has_doc_column = True, has_prob_column = True,
          frame_rows = [(''111'', FloatCell 0.75)] \<rparr> \<rparr>)
     ''John Doe'' ''123456789'' (Some ''123 Main St'') ''PASSPORT''
     = Inr \<lparr> fraud_probability = 50, risk_level = ''Medium'', confidence = 50,
             status = ''Verified'' \<rparr>"
    by (simp add: predict_fraud_def extract_features_def initial_globals_def
        transform_stage_def raw_prob_def gnn_pred_def gnn_lookup_def scoring_result_of_def
        classify_def)
  show ?thesis unfolding g p by simp
qed

text \<open>
  C4 (amended): the fallback lookup returns exactly 0.50 when the table is empty, when no
  row has the document number as its key (equality of strings), and when the lookup
  raises; a row that matches gives its own probability. When the classifier is absent, the
  pipeline's result is the result built from the fallback value for that document number:
  its risk level is the bucket of that value, and its fraud probability is that value,
  clamped, times 100. With the classifier absent and no row for the key, the result has
  fraud probability exactly \<open>0.50 * 100\<close>, that is 50, and risk level Medium.
\<close>

theorem fallback_lookup_default:
  "(frame_rows df = [] \<longrightarrow> gnn_pred df doc = 0.50) \<and>
   (doc \<notin> fst ` set (frame_rows df) \<longrightarrow> gnn_pred df doc = 0.50) \<and>
   (gnn_lookup df doc = Inl e \<longrightarrow> gnn_pred df doc = 0.50) \<and>
   (has_doc_column df \<and> has_prob_column df \<and>
      filter (\<lambda>r. fst r = doc) (frame_rows df) = (k, FloatCell p) # rest
      \<longrightarrow> gnn_pred df doc = p) \<and>
   (model g = None \<longrightarrow>
      predict_fraud g name doc (Some a) dtype = Inr (scoring_result_of (gnn_pred (gnn_df g) doc)) \<and>
      risk_level (scoring_result_of (gnn_pred (gnn_df g) doc)) = classify (gnn_pred (gnn_df g) doc) \<and>
      fraud_probability (scoring_result_of (gnn_pred (gnn_df g) doc))
        = max 0 (min 1 (gnn_pred (gnn_df g) doc)) * 100) \<and>
   (model g = None \<and> doc \<notin> fst ` set (frame_rows (gnn_df g)) \<longrightarrow>
      predict_fraud g name doc (Some a) dtype =
        Inr \<lparr> fraud_probability = 0.50 * 100, risk_level = ''Medium'',
               confidence = (1 - 0.50) * 100, status = ''Verified'' \<rparr>)"
proof -
  obtain X where X: "extract_features name doc (Some a) dtype = Inr X"
    using extract_features_returns by blast
  have absent: "predict_fraud g name doc (Some a) dtype
      = Inr (scoring_result_of (gnn_pred (gnn_df g) doc))" if "model g = None"
    using predict_fraud_of_features [OF X, of g] that by (simp add: raw_prob_no_model)
  have bucket: "risk_level (scoring_result_of (gnn_pred (gnn_df g) doc))
      = classify (gnn_pred (gnn_df g) doc)"
    by (simp only: scoring_result_of_fields classify_clamp)
  have missing: "predict_fraud g name doc (Some a) dtype =
        Inr \<lparr> fraud_probability = 0.50 * 100, risk_level = ''Medium'',
               confidence = (1 - 0.50) * 100, status = ''Verified'' \<rparr>"
    if "model g = None" "doc \<notin> fst ` set (frame_rows (gnn_df g))"
    using absent [OF that(1)] gnn_pred_missing [OF that(2)] scoring_result_of_half by simp
  show ?thesis
    using gnn_pred_empty [of df doc] gnn_pred_missing [of doc df] gnn_pred_error [of df doc e]
      gnn_pred_found [of df doc k p rest] absent bucket missing
      scoring_result_of_fields(1) [of "gnn_pred (gnn_df g) doc"]
    by blast
qed

text \<open>
  The theorem on the empty frame and on a frame of two rows, one of them with a cell that
  is not a number: a missing key and the bad cell give 0.50, the key \<^verbatim>\<open>111\<close> gives 0.75.
\<close>

theorem fallback_lookup_default_witness:
  "gnn_pred empty_frame ''123456789'' = 0.50 \<and>
   gnn_pred \<lparr> has_doc_column = True, has_prob_column = True,
              frame_rows = [(''111'', FloatCell 0.75), (''222'', BadCell)] \<rparr> ''123456789'' = 0.50 \<and>
   gnn_pred \<lparr> has_doc_column = True, has_prob_column = True,
              frame_rows = [(''111'', FloatCell 0.75), (''222'', BadCell)] \<rparr> ''222'' = 0.50 \<and>
   gnn_pred \<lparr> has_doc_column = True, has_prob_column = True,
              frame_rows = [(''111'', FloatCell 0.75), (''222'', BadCell)] \<rparr> ''111'' = 0.75 \<and>
   predict_fraud
     (initial_globals\<lparr> gnn_df := \<lparr> has_doc_column = True, has_prob_column = True,
          frame_rows = [(''111'', FloatCell 0.75), (''222'', BadCell)] \<rparr> \<rparr>)
     ''John Doe'' ''111'' (Some ''123 Main St'') ''PASSPORT''
     = Inr \<lparr> fraud_probability = 75, risk_level = ''High'', confidence = 25,
             status = ''Flagged'' \<rparr> \<and>
   predict_fraud
     (initial_globals\<lparr> gnn_df := \<lparr> has_doc_column = True, has_prob_column = True,
          frame_rows = [(''111'', FloatCell 0.75), (''222'', BadCell)] \<rparr> \<rparr>)
     ''John Doe'' ''123456789'' (Some ''123 Main St'') ''PASSPORT''
     = Inr \<lparr> fraud_probability = 50, risk_level = ''Medium'', confidence = 50,
             status = ''Verified'' \<rparr>"
proof -
  let ?df = "\<lparr> has_doc_column = True, has_prob_column = True,
              frame_rows = [(''111'', FloatCell 0.75), (''222'', BadCell)] \<rparr>"
  let ?g = "initial_globals\<lparr> gnn_df := ?df \<rparr>"
  have e: "gnn_lookup ?df ''222'' = Inl ValueError"
    by (simp add: gnn_lookup_def)
  have m: "model ?g = None" by (simp add: initial_globals_def)
  have s: "scoring_result_of 0.75 = \<lparr> fraud_probability = 75, risk_level = ''High'',
      confidence = 25, status = ''Flagged'' \<rparr>"
    by (simp add: scoring_result_of_def classify_def)
  have gd: "gnn_df ?g = ?df" by simp
  have n: "''123456789'' \<notin> fst ` set (frame_rows ?df)"
    "''123456789'' \<notin> fst ` set (frame_rows (gnn_df ?g))"
    by simp_all
  have f: "filter (\<lambda>r. fst r = ''111'') (frame_rows ?df) = (''111'', FloatCell 0.75) # []"
    by simp
  have a1: "gnn_pred empty_frame ''123456789'' = 0.50"
    using fallback_lookup_default [of empty_frame "''123456789''"] by (simp add: empty_frame_def)
  have a2: "gnn_pred ?df ''123456789'' = 0.50"
    using fallback_lookup_default [of ?df "''123456789''"] n(1) by blast
  have a3: "gnn_pred ?df ''222'' = 0.50"
    using fallback_lookup_default [of ?df "''222''" ValueError] e by blast
  have a4: "gnn_pred ?df ''111'' = 0.75"
    using fallback_lookup_default [of ?df "''111''" ValueError "''111''" "0.75" "[]"] f by simp
  have "predict_fraud ?g ''John Doe'' ''111'' (Some ''123 Main St'') ''PASSPORT''
      = Inr (scoring_result_of (gnn_pred (gnn_df ?g) ''111''))"
    using fallback_lookup_default [of ?df "''111''" ValueError "''111''" "0.75" "[]" ?g] m by blast
  then have a5: "predict_fraud ?g ''John Doe'' ''111'' (Some ''123 Main St'') ''PASSPORT''
      = Inr \<lparr> fraud_probability = 75, risk_level = ''High'', confidence = 25,
             status = ''Flagged'' \<rparr>"
    by (simp only: gd a4 s)
  have "predict_fraud ?g ''John Doe'' ''123456789'' (Some ''123 Main St'') ''PASSPORT''
      = Inr \<lparr> fraud_probability = 0.50 * 100, risk_level = ''Medium'',
               confidence = (1 - 0.50) * 100, status = ''Verified'' \<rparr>"
    using fallback_lookup_default [of ?df "''123456789''" ValueError "''111''" "0.75" "[]" ?g] m n(2)
    by blast
  then have a6: "predict_fraud ?g ''John Doe'' ''123456789'' (Some ''123 Main St'') ''PASSPORT''
      = Inr \<lparr> fraud_probability = 50, risk_level = ''Medium'', confidence = 50,
             status = ''Verified'' \<rparr>"
    by simp
  from a1 a2 a3 a4 a5 a6 show ?thesis by blast
qed

subsection \<open>C5: the transform stages\<close>

text \<open>
  C5: a stage whose artifact is absent leaves the feature array unchanged; a stage whose
  \<^verbatim>\<open>transform\<close> raises leaves it unchanged too, and the next stage receives the array from
  before the failure. The selector runs first and the scaler runs on what the selector
  left. The classifier or the fallback then scores the outcome of the two stages, and
  \<^verbatim>\<open>predict_fraud\<close> returns a result whatever the stages did.
\<close>

theorem transform_failure_is_pass_through:
  "transform_stage None X = X \<and>
   (t X = Inl e \<longrightarrow> transform_stage (Some t) X = X) \<and>
   (t X = Inr Y \<longrightarrow> transform_stage (Some t) X = Y) \<and>
   (feature_selector g = Some sel \<and> sel X = Inl e \<and> scaler g = Some sc \<and> sc X = Inr Y
      \<longrightarrow> transform_stage (scaler g) (transform_stage (feature_selector g) X) = Y) \<and>
   (feature_selector g = Some sel \<and> sel X = Inr X1 \<and> scaler g = Some sc \<and> sc X1 = Inr Y
      \<longrightarrow> transform_stage (scaler g) (transform_stage (feature_selector g) X) = Y) \<and>
   (feature_selector g = Some sel \<and> sel X = Inr X1 \<and> scaler g = Some sc \<and> sc X1 = Inl e
      \<longrightarrow> transform_stage (scaler g) (transform_stage (feature_selector g) X) = X1) \<and>
   (extract_features name doc (Some a) dtype = Inr X \<longrightarrow>
      predict_fraud g name doc (Some a) dtype =
        Inr (scoring_result_of
          (raw_prob g (transform_stage (scaler g) (transform_stage (feature_selector g) X)) doc))) \<and>
   (\<exists>r. predict_fraud g name doc (Some a) dtype = Inr r)"
proof -
  have "extract_features name doc (Some a) dtype = Inr X \<longrightarrow>
      predict_fraud g name doc (Some a) dtype =
        Inr (scoring_result_of
          (raw_prob g (transform_stage (scaler g) (transform_stage (feature_selector g) X)) doc))"
    using predict_fraud_of_features by blast
  then show ?thesis
    using predict_fraud_returns [of g name doc a dtype]
    by (auto simp add: transform_stage_def)
qed

text \<open>
  The theorem on a selector that raises, a selector that keeps the first columns and a
  scaler that halves; and on the scenario request with both stages raising.
\<close>

theorem transform_failure_is_pass_through_witness:
  "transform_stage (Some (\<lambda>X. Inl ArtifactError)) [[8, 9, 11, 1, 9, 0, 0, 1, 3, 2, 1, 0]]
     = [[8, 9, 11, 1, 9, 0, 0, 1, 3, 2, 1, 0]] \<and>
   transform_stage (Some (\<lambda>X. Inr (map (take 2) X))) [[8, 9, 11, 1, 9, 0, 0, 1, 3, 2, 1, 0]]
     = [[8, 9]] \<and>
   transform_stage (scaler (initial_globals\<lparr> feature_selector := Some (\<lambda>X. Inl ArtifactError),
        scaler := Some (\<lambda>X. Inr (map (map (\<lambda>x. x / 2)) X)) \<rparr>))
     (transform_stage (feature_selector (initial_globals\<lparr> feature_selector := Some (\<lambda>X. Inl ArtifactError),
        scaler := Some (\<lambda>X. Inr (map (map (\<lambda>x. x / 2)) X)) \<rparr>)) [[8, 4]])
     = [[4, 2]] \<and>
   transform_stage (scaler (initial_globals\<lparr> feature_selector := Some (\<lambda>X. Inr (map (take 1) X)),
        scaler := Some (\<lambda>X. Inr (map (map (\<lambda>x. x / 2)) X)) \<rparr>))
     (transform_stage (feature_selector (initial_globals\<lparr> feature_selector := Some (\<lambda>X. Inr (map (take 1) X)),
        scaler := Some (\<lambda>X. Inr (map (map (\<lambda>x. x / 2)) X)) \<rparr>)) [[8, 4]])
     = [[4]] \<and>
   predict_fraud (initial_globals\<lparr> feature_selector := Some (\<lambda>X. Inl ArtifactError),
        scaler := Some (\<lambda>X. Inl ArtifactError) \<rparr>)
     ''John Doe'' ''123456789'' (Some ''123 Main St'') ''PASSPORT''
     = Inr \<lparr> fraud_probability = 50, risk_level = ''Medium'', confidence = 50,
             status = ''Verified'' \<rparr>"
proof -
  let ?fail = "(\<lambda>X. Inl ArtifactError) :: transformer"
  let ?half = "(\<lambda>X. Inr (map (map (\<lambda>x. x / 2)) X)) :: transformer"
  let ?sel1 = "(\<lambda>X. Inr (map (take 1) X)) :: transformer"
  let ?sel2 = "(\<lambda>X. Inr (map (take 2) X)) :: transformer"
  let ?X = "[[8, 9, 11, 1, 9, 0, 0, 1, 3, 2, 1, 0]] :: ndarray"
  let ?g1 = "initial_globals\<lparr> feature_selector := Some ?fail, scaler := Some ?half \<rparr>"
  let ?g2 = "initial_globals\<lparr> feature_selector := Some ?sel1, scaler := Some ?half \<rparr>"
  let ?g3 = "initial_globals\<lparr> feature_selector := Some ?fail, scaler := Some ?fail \<rparr>"
  have b1: "transform_stage (Some ?fail) ?X = ?X"
    using transform_failure_is_pass_through [of ?X ?fail ArtifactError] by simp
  have b2: "transform_stage (Some ?sel2) ?X = [[8, 9]]"
    using transform_failure_is_pass_through [of ?X ?sel2 ArtifactError "[[8, 9]]"] by simp
  have b3: "transform_stage (scaler ?g1) (transform_stage (feature_selector ?g1) [[8, 4]]) = [[4, 2]]"
    using transform_failure_is_pass_through
      [of "[[8, 4]]" ?half ArtifactError "[[4, 2]]" ?g1 ?fail ?half]
    by simp
  have b4: "transform_stage (scaler ?g2) (transform_stage (feature_selector ?g2) [[8, 4]]) = [[4]]"
    using transform_failure_is_pass_through
      [of "[[8, 4]]" ?sel1 ArtifactError "[[4]]" ?g2 ?sel1 ?half "[[8]]"]
    by simp
  have "predict_fraud ?g3 ''John Doe'' ''123456789'' (Some ''123 Main St'') ''PASSPORT'' =
        Inr (scoring_result_of
          (raw_prob ?g3 (transform_stage (scaler ?g3) (transform_stage (feature_selector ?g3) ?X))
             ''123456789''))"
    using transform_failure_is_pass_through
      [of ?X ?fail ArtifactError ?X ?g3 ?fail ?fail ?X "''John Doe''" "''123456789''"
        "''123 Main St''" "''PASSPORT''"] john_doe_features
    by blast
  then have b5: "predict_fraud ?g3 ''John Doe'' ''123456789'' (Some ''123 Main St'') ''PASSPORT''
     = Inr \<lparr> fraud_probability = 50, risk_level = ''Medium'', confidence = 50,
             status = ''Verified'' \<rparr>"
    by (simp add: initial_globals_def empty_frame_def transform_stage_def raw_prob_def
        gnn_pred_def gnn_lookup_def scoring_result_of_def classify_def)
  from b1 b2 b3 b4 b5 show ?thesis by blast
qed

subsection \<open>C6: the shape of the classifier's answer\<close>

text \<open>
  C6, as stated, fails at the width that has no entries: when the first row of the matrix
  is empty, the pipeline does not take its last entry. The indexing raises, and the
  result comes from the fallback table: with the same matrix it follows the table's value
  for the document number.
\<close>

theorem empty_row_falls_back_to_lookup:
  "resolve_proba (Proba2 [[]]) = Inl IndexError \<and>
   predict_fraud
     (initial_globals\<lparr> model := Some \<lparr> predict_proba = Some (\<lambda>X. Inr (Proba2 [[]])),
                                         predict = (\<lambda>X. Inr [1]) \<rparr>,
        gnn_df := \<lparr> has_doc_column = True, has_prob_column = True,
                    frame_rows = [(''123456789'', FloatCell 0.75)] \<rparr> \<rparr>)
     ''John Doe'' ''123456789'' (Some ''123 Main St'') ''PASSPORT''
     = Inr \<lparr> fraud_probability = 75, risk_level = ''High'', confidence = 25,
             status = ''Flagged'' \<rparr> \<and>
   predict_fraud
     (initial_globals\<lparr> model := Some \<lparr> predict_proba = Some (\<lambda>X. Inr (Proba2 [[]])),
                                         predict = (\<lambda>X. Inr [1]) \<rparr>,
        gnn_df := \<lparr> has_doc_column = True, has_prob_column = True,
                    frame_rows = [(''123456789'', FloatCell 0.25)] \<rparr> \<rparr>)
     ''John Doe'' ''123456789'' (Some ''123 Main St'') ''PASSPORT''
     = Inr \<lparr> fraud_probability = 25, risk_level = ''Low'', confidence = 75,
             status = ''Verified'' \<rparr>"
  by (simp add: predict_fraud_def extract_features_def initial_globals_def
      transform_stage_def raw_prob_def model_prob_def resolve_proba_def gnn_pred_def
      gnn_lookup_def scoring_result_of_def classify_def)

text \<open>
  C6 (amended): when the classifier returns a probability matrix for the transformed
  features, \<^verbatim>\<open>predict_fraud\<close> scores one entry of its first row, by this priority: of two
  columns the second (positive-class) entry, of one column its only entry, and of three
  or more columns the last entry. When the answer has no entry to take (no rows, a first
  row without columns, or a one-dimensional array), the indexing raises and
  \<^verbatim>\<open>predict_fraud\<close> scores the fallback lookup of the document number.
\<close>

theorem proba_shape_resolution:
  assumes "model g = Some m" and "predict_proba m = Some f"
    and "extract_features name doc (Some a) dtype = Inr X"
    and "f (transform_stage (scaler g) (transform_stage (feature_selector g) X)) = Inr P"
  shows "(P = Proba2 (row # rest) \<and> length row = 2 \<longrightarrow>
            predict_fraud g name doc (Some a) dtype = Inr (scoring_result_of (row ! 1))) \<and>
         (P = Proba2 (row # rest) \<and> length row = 1 \<longrightarrow>
            predict_fraud g name doc (Some a) dtype = Inr (scoring_result_of (row ! 0))) \<and>
         (P = Proba2 (row # rest) \<and> 2 < length row \<longrightarrow>
            predict_fraud g name doc (Some a) dtype = Inr (scoring_result_of (last row))) \<and>
         (P = Proba1 v \<or> P = Proba2 [] \<or> P = Proba2 ([] # rest) \<longrightarrow>
            predict_fraud g name doc (Some a) dtype
              = Inr (scoring_result_of (gnn_pred (gnn_df g) doc)))"
proof -
  let ?X = "transform_stage (scaler g) (transform_stage (feature_selector g) X)"
  note pf = predict_fraud_of_features [OF assms(3), of g]
  have taken: "predict_fraud g name doc (Some a) dtype = Inr (scoring_result_of q)"
    if "model_prob m ?X = Inr q" for q
    using pf raw_prob_model [OF assms(1) that] by simp
  have fallback: "predict_fraud g name doc (Some a) dtype
      = Inr (scoring_result_of (gnn_pred (gnn_df g) doc))"
    if "model_prob m ?X = Inl e" for e
    using pf raw_prob_model_fails [OF assms(1) that] by simp
  have "predict_fraud g name doc (Some a) dtype = Inr (scoring_result_of (row ! 1))"
    if "P = Proba2 (row # rest)" "length row = 2"
    using model_prob_matrix [OF assms(2), of ?X row rest] assms(4) that
    by (intro taken) simp
  moreover have "predict_fraud g name doc (Some a) dtype = Inr (scoring_result_of (row ! 0))"
    if "P = Proba2 (row # rest)" "length row = 1"
    using model_prob_matrix [OF assms(2), of ?X row rest] assms(4) that
    by (intro taken) simp
  moreover have "predict_fraud g name doc (Some a) dtype = Inr (scoring_result_of (last row))"
    if "P = Proba2 (row # rest)" "2 < length row"
  proof -
    from that(2) have "row \<noteq> []" by auto
    with model_prob_matrix [OF assms(2), of ?X row rest] assms(4) that
    have "model_prob m ?X = Inr (last row)" by simp
    then show ?thesis by (rule taken)
  qed
  moreover have "predict_fraud g name doc (Some a) dtype
      = Inr (scoring_result_of (gnn_pred (gnn_df g) doc))"
    if "P = Proba1 v \<or> P = Proba2 [] \<or> P = Proba2 ([] # rest)"
    using model_prob_no_entry [OF assms(2,4) that] by (rule fallback)
  ultimately show ?thesis by blast
qed

text \<open>
  The theorem on the scenario request, with matrices of two, one, three and no columns:
  the entries scored are 0.75, 0.25 and 0.125 (the last of three, not the second), and
  the empty row gives the neutral fallback.
\<close>

theorem proba_shape_resolution_witness:
  "predict_fraud
     (initial_globals\<lparr> model := Some \<lparr> predict_proba = Some (\<lambda>X. Inr (Proba2 [[0.25, 0.75]])),
                                         predict = (\<lambda>X. Inr [1]) \<rparr> \<rparr>)
     ''John Doe'' ''123456789'' (Some ''123 Main St'') ''PASSPORT''
     = Inr \<lparr> fraud_probability = 75, risk_level = ''High'', confidence = 25,
             status = ''Flagged'' \<rparr> \<and>
   predict_fraud
     (initial_globals\<lparr> model := Some \<lparr> predict_proba = Some (\<lambda>X. Inr (Proba2 [[0.25]])),
                                         predict = (\<lambda>X. Inr [1]) \<rparr> \<rparr>)
     ''John Doe'' ''123456789'' (Some ''123 Main St'') ''PASSPORT''
     = Inr \<lparr> fraud_probability = 25, risk_level = ''Low'', confidence = 75,
             status = ''Verified'' \<rparr> \<and>
   predict_fraud
     (initial_globals\<lparr> model := Some \<lparr> predict_proba = Some (\<lambda>X. Inr (Proba2 [[0.125, 0.75, 0.125]])),
                                         predict = (\<lambda>X. Inr [1]) \<rparr> \<rparr>)
     ''John Doe'' ''123456789'' (Some ''123 Main St'') ''PASSPORT''
     = Inr \<lparr> fraud_probability = 12.5, risk_level = ''Low'', confidence = 87.5,
             status = ''Verified'' \<rparr> \<and>
   predict_fraud
     (initial_globals\<lparr> model := Some \<lparr> predict_proba = Some (\<lambda>X. Inr (Proba2 [[]])),
                                         predict = (\<lambda>X. Inr [1]) \<rparr> \<rparr>)
     ''John Doe'' ''123456789'' (Some ''123 Main St'') ''PASSPORT''
     = Inr \<lparr> fraud_probability = 50, risk_level = ''Medium'', confidence = 50,
             status = ''Verified'' \<rparr>"
proof -
  let ?m = "\<lambda>P. \<lparr> predict_proba = Some (\<lambda>X :: ndarray. Inr (Proba2 P) :: py_error + proba),
                   predict = (\<lambda>X :: ndarray. Inr [1] :: py_error + int list) \<rparr>"
  let ?g = "\<lambda>P. initial_globals\<lparr> model := Some (?m P) \<rparr>"
  let ?X = "[[8, 9, 11, 1, 9, 0, 0, 1, 3, 2, 1, 0]] :: ndarray"
  have s: "scoring_result_of 0.75 = \<lparr> fraud_probability = 75, risk_level = ''High'',
        confidence = 25, status = ''Flagged'' \<rparr>"
    "scoring_result_of 0.25 = \<lparr> fraud_probability = 25, risk_level = ''Low'',
        confidence = 75, status = ''Verified'' \<rparr>"
    "scoring_result_of 0.125 = \<lparr> fraud_probability = 12.5, risk_level = ''Low'',
        confidence = 87.5, status = ''Verified'' \<rparr>"
    "scoring_result_of 0.50 = \<lparr> fraud_probability = 50, risk_level = ''Medium'',
        confidence = 50, status = ''Verified'' \<rparr>"
    by (simp_all add: scoring_result_of_def classify_def)
  have g: "gnn_pred (gnn_df (?g [[]])) ''123456789'' = 0.50"
    by (simp add: initial_globals_def empty_frame_def gnn_pred_def gnn_lookup_def)
  have "predict_fraud (?g [[0.25, 0.75]]) ''John Doe'' ''123456789'' (Some ''123 Main St'')
      ''PASSPORT'' = Inr (scoring_result_of ([0.25, 0.75] ! 1))"
    using proba_shape_resolution [of "?g [[0.25, 0.75]]" "?m [[0.25, 0.75]]"
        "\<lambda>X. Inr (Proba2 [[0.25, 0.75]])" "''John Doe''" "''123456789''" "''123 Main St''"
        "''PASSPORT''" ?X "Proba2 [[0.25, 0.75]]" "[0.25, 0.75]" "[]"] john_doe_features
    by simp
  then have c1: "predict_fraud (?g [[0.25, 0.75]]) ''John Doe'' ''123456789''
      (Some ''123 Main St'') ''PASSPORT''
      = Inr \<lparr> fraud_probability = 75, risk_level = ''High'', confidence = 25,
             status = ''Flagged'' \<rparr>"
    using s(1) by simp
  have "predict_fraud (?g [[0.25]]) ''John Doe'' ''123456789'' (Some ''123 Main St'')
      ''PASSPORT'' = Inr (scoring_result_of ([0.25] ! 0))"
    using proba_shape_resolution [of "?g [[0.25]]" "?m [[0.25]]"
        "\<lambda>X. Inr (Proba2 [[0.25]])" "''John Doe''" "''123456789''" "''123 Main St''"
        "''PASSPORT''" ?X "Proba2 [[0.25]]" "[0.25]" "[]"] john_doe_features
    by simp
  then have c2: "predict_fraud (?g [[0.25]]) ''John Doe'' ''123456789''
      (Some ''123 Main St'') ''PASSPORT''
      = Inr \<lparr> fraud_probability = 25, risk_level = ''Low'', confidence = 75,
             status = ''Verified'' \<rparr>"
    using s(2) by simp
  have "predict_fraud (?g [[0.125, 0.75, 0.125]]) ''John Doe'' ''123456789''
      (Some ''123 Main St'') ''PASSPORT'' = Inr (scoring_result_of (last [0.125, 0.75, 0.125]))"
    using proba_shape_resolution [of "?g [[0.125, 0.75, 0.125]]" "?m [[0.125, 0.75, 0.125]]"
        "\<lambda>X. Inr (Proba2 [[0.125, 0.75, 0.125]])" "''John Doe''" "''123456789''"
        "''123 Main St''" "''PASSPORT''" ?X "Proba2 [[0.125, 0.75, 0.125]]"
        "[0.125, 0.75, 0.125]" "[]"] john_doe_features
    by simp
  then have c3: "predict_fraud (?g [[0.125, 0.75, 0.125]]) ''John Doe'' ''123456789''
      (Some ''123 Main St'') ''PASSPORT''
      = Inr \<lparr> fraud_probability = 12.5, risk_level = ''Low'', confidence = 87.5,
             status = ''Verified'' \<rparr>"
    using s(3) by simp
  have "predict_fraud (?g [[]]) ''John Doe'' ''123456789'' (Some ''123 Main St'')
      ''PASSPORT'' = Inr (scoring_result_of (gnn_pred (gnn_df (?g [[]])) ''123456789''))"
    using proba_shape_resolution [of "?g [[]]" "?m [[]]"
        "\<lambda>X. Inr (Proba2 [[]])" "''John Doe''" "''123456789''" "''123 Main St''"
        "''PASSPORT''" ?X "Proba2 [[]]" "[]" "[]" "[]"] john_doe_features
    by simp
  then have c4: "predict_fraud (?g [[]]) ''John Doe'' ''123456789''
      (Some ''123 Main St'') ''PASSPORT''
      = Inr \<lparr> fraud_probability = 50, risk_level = ''Medium'', confidence = 50,
             status = ''Verified'' \<rparr>"
    unfolding g using s(4) by simp
  from c1 c2 c3 c4 show ?thesis by blast
qed

subsection \<open>C7: the clamp\<close>

text \<open>
  C7: whatever raw value the classifier path or the fallback path produces, also one
  outside [0,1], the pipeline buckets \<open>max 0 (min 1 raw)\<close>, which lies in [0,1]: the result
  of \<^verbatim>\<open>predict_fraud\<close> is built from the raw value of either path by clamping first, its risk
  level is the bucket of the clamped value and its fraud probability is the clamped value
  as a percentage. A raw value of 1 or more is scored as 1, one of 0 or less as 0.
\<close>

theorem probability_clamped_before_bucketing:
  "(\<exists>X. extract_features name doc (Some a) dtype = Inr X \<and>
      predict_fraud g name doc (Some a) dtype =
        Inr (scoring_result_of
          (raw_prob g (transform_stage (scaler g) (transform_stage (feature_selector g) X)) doc))) \<and>
   (model g = Some m \<and> model_prob m Y = Inr q \<longrightarrow> raw_prob g Y doc = q) \<and>
   (model g = Some m \<and> model_prob m Y = Inl e \<longrightarrow> raw_prob g Y doc = gnn_pred (gnn_df g) doc) \<and>
   (model g = None \<longrightarrow> raw_prob g Y doc = gnn_pred (gnn_df g) doc) \<and>
   risk_level (scoring_result_of raw) = classify (max 0 (min 1 raw)) \<and>
   fraud_probability (scoring_result_of raw) = max 0 (min 1 raw) * 100 \<and>
   confidence (scoring_result_of raw) = (1 - max 0 (min 1 raw)) * 100 \<and>
   0 \<le> max 0 (min 1 raw) \<and> max 0 (min 1 raw) \<le> 1 \<and>
   (1 \<le> raw \<longrightarrow> scoring_result_of raw =
      \<lparr> fraud_probability = 100, risk_level = ''High'', confidence = 0, status = ''Flagged'' \<rparr>) \<and>
   (raw \<le> 0 \<longrightarrow> scoring_result_of raw =
      \<lparr> fraud_probability = 0, risk_level = ''Low'', confidence = 100, status = ''Verified'' \<rparr>)"
proof -
  have "\<exists>X. extract_features name doc (Some a) dtype = Inr X \<and>
      predict_fraud g name doc (Some a) dtype =
        Inr (scoring_result_of
          (raw_prob g (transform_stage (scaler g) (transform_stage (feature_selector g) X)) doc))"
    using extract_features_returns [of name doc a dtype] predict_fraud_of_features by blast
  moreover have "0 \<le> max 0 (min 1 raw)" "max 0 (min 1 raw) \<le> 1"
    by simp_all
  ultimately show ?thesis
    using raw_prob_model [of g m Y q doc] raw_prob_model_fails [of g m Y e doc]
      raw_prob_no_model [of g Y doc] scoring_result_of_fields(1,2,3) [of raw]
      scoring_result_of_high [of raw] scoring_result_of_low [of raw]
    by blast
qed

text \<open>
  The theorem on a classifier that answers 1.7 for the positive class, and on a fallback
  table that holds -0.3 for the document number.
\<close>

theorem probability_clamped_before_bucketing_witness:
  "predict_fraud
     (initial_globals\<lparr> model := Some \<lparr> predict_proba = Some (\<lambda>X. Inr (Proba2 [[- 0.7, 1.7]])),
                                         predict = (\<lambda>X. Inr [1]) \<rparr> \<rparr>)
     ''John Doe'' ''123456789'' (Some ''123 Main St'') ''PASSPORT''
     = Inr \<lparr> fraud_probability = 100, risk_level = ''High'', confidence = 0,
             status = ''Flagged'' \<rparr> \<and>
   predict_fraud
     (initial_globals\<lparr> gnn_df := \<lparr> has_doc_column = True, has_prob_column = True,
          frame_rows = [(''123456789'', FloatCell (- 0.3))] \<rparr> \<rparr>)
     ''John Doe'' ''123456789'' (Some ''123 Main St'') ''PASSPORT''
     = Inr \<lparr> fraud_probability = 0, risk_level = ''Low'', confidence = 100,
             status = ''Verified'' \<rparr>"
proof -
  let ?m = "\<lparr> predict_proba = Some (\<lambda>X :: ndarray. Inr (Proba2 [[- 0.7, 1.7]]) :: py_error + proba),
              predict = (\<lambda>X :: ndarray. Inr [1] :: py_error + int list) \<rparr>"
  let ?g1 = "initial_globals\<lparr> model := Some ?m \<rparr>"
  let ?g2 = "initial_globals\<lparr> gnn_df := \<lparr> has_doc_column = True, has_prob_column = True,
          frame_rows = [(''123456789'', FloatCell (- 0.3))] \<rparr> \<rparr>"
  let ?X = "[[8, 9, 11, 1, 9, 0, 0, 1, 3, 2, 1, 0]] :: ndarray"
  have s1: "transform_stage (scaler ?g1) (transform_stage (feature_selector ?g1) ?X) = ?X"
    and s2: "transform_stage (scaler ?g2) (transform_stage (feature_selector ?g2) ?X) = ?X"
    by (simp_all add: initial_globals_def transform_stage_def)
  have mp: "model ?g1 = Some ?m \<and> model_prob ?m ?X = Inr 1.7"
    by (simp add: model_prob_def resolve_proba_def)
  note T1 = probability_clamped_before_bucketing [of "''John Doe''" "''123456789''"
      "''123 Main St''" "''PASSPORT''" ?g1 ?m ?X "1.7" IndexError "1.7"]
  from T1 mp have r1: "raw_prob ?g1 ?X ''123456789'' = 1.7" by blast
  from T1 have h1: "scoring_result_of 1.7 =
      \<lparr> fraud_probability = 100, risk_level = ''High'', confidence = 0, status = ''Flagged'' \<rparr>"
    by simp
  from T1 john_doe_features s1
  have "predict_fraud ?g1 ''John Doe'' ''123456789'' (Some ''123 Main St'') ''PASSPORT''
      = Inr (scoring_result_of (raw_prob ?g1 ?X ''123456789''))"
    by auto
  then have d1: "predict_fraud ?g1 ''John Doe'' ''123456789'' (Some ''123 Main St'') ''PASSPORT''
      = Inr \<lparr> fraud_probability = 100, risk_level = ''High'', confidence = 0,
             status = ''Flagged'' \<rparr>"
    by (simp only: r1 h1)
  note T2 = probability_clamped_before_bucketing [of "''John Doe''" "''123456789''"
      "''123 Main St''" "''PASSPORT''" ?g2 ?m ?X "1.7" IndexError "- 0.3"]
  have "model ?g2 = None" by (simp add: initial_globals_def)
  with T2 have "raw_prob ?g2 ?X ''123456789'' = gnn_pred (gnn_df ?g2) ''123456789''" by blast
  then have r2: "raw_prob ?g2 ?X ''123456789'' = - 0.3"
    by (simp add: gnn_pred_def gnn_lookup_def)
  from T2 have h2: "scoring_result_of (- 0.3) =
      \<lparr> fraud_probability = 0, risk_level = ''Low'', confidence = 100, status = ''Verified'' \<rparr>"
    by simp
  from T2 john_doe_features s2
  have "predict_fraud ?g2 ''John Doe'' ''123456789'' (Some ''123 Main St'') ''PASSPORT''
      = Inr (scoring_result_of (raw_prob ?g2 ?X ''123456789''))"
    by auto
  then have d2: "predict_fraud ?g2 ''John Doe'' ''123456789'' (Some ''123 Main St'') ''PASSPORT''
      = Inr \<lparr> fraud_probability = 0, risk_level = ''Low'', confidence = 100,
             status = ''Verified'' \<rparr>"
    by (simp only: r2 h2)
  from d1 d2 show ?thesis by blast
qed

subsection \<open>C8: the scenario request\<close>

text \<open>
  C8, as stated, fails in the fifth feature: the document number \<^verbatim>\<open>123456789\<close> has nine
  distinct characters, so the extractor does not produce the vector with 8 there.
\<close>

theorem john_doe_fifth_feature_is_not_8:
  "extract_features ''John Doe'' ''123456789'' (Some ''123 Main St'') ''PASSPORT''
     \<noteq> Inr [[8, 9, 11, 1, 8, 0, 0, 1, 3, 2, 1, 0]]"
  by (simp add: john_doe_features)

text \<open>
  C8 (amended): for the request name "John Doe", documentNumber "123456789", address
  "123 Main St", documentType PASSPORT, the extractor produces exactly the vector
  [8, 9, 11, 1, 9, 0, 0, 1, 3, 2, 1, 0]; with no artifacts loaded and an empty fallback
  table the pipeline returns probability 0.50 (reported as \<open>0.50 * 100\<close>), risk level
  Medium and status Verified.
\<close>

theorem john_doe_scenario:
  "extract_features ''John Doe'' ''123456789'' (Some ''123 Main St'') ''PASSPORT''
     = Inr [[8, 9, 11, 1, 9, 0, 0, 1, 3, 2, 1, 0]] \<and>
   predict_fraud initial_globals ''John Doe'' ''123456789'' (Some ''123 Main St'') ''PASSPORT''
     = Inr \<lparr> fraud_probability = 0.50 * 100, risk_level = ''Medium'', confidence = (1 - 0.50) * 100,
             status = ''Verified'' \<rparr>"
  using john_doe_features
    predict_fraud_initial [of "''John Doe''" "''123456789''" "''123 Main St''" "''PASSPORT''"]
  by simp

subsection \<open>C9: the two feature extractors\<close>

text \<open>
  C9: the two extractors compute the same encoding, with the third one-hot slot set for
  PASSPORT and for UTILITY. \<^verbatim>\<open>predict.extract_features\<close>, headed "SAME AS MAIN BACKEND", has
  no entry for PASSPORT in its \<^verbatim>\<open>doc_map\<close>: on the scenario request it leaves the slot at 0
  where \<^verbatim>\<open>main.extract_features\<close> sets it to 1. (On every other document type the two agree:
  \<open>features_agree\<close>.)
\<close>

theorem extractors_differ_on_passport:
  "extract_features ''John Doe'' ''123456789'' (Some ''123 Main St'') ''PASSPORT''
     = Inr [[8, 9, 11, 1, 9, 0, 0, 1, 3, 2, 1, 0]] \<and>
   predict_extract_features ''John Doe'' ''123456789'' (Some ''123 Main St'') ''PASSPORT''
     = Inr [[8, 9, 11, 1, 9, 0, 0, 0, 3, 2, 1, 0]] \<and>
   predict_extract_features ''John Doe'' ''123456789'' (Some ''123 Main St'') ''PASSPORT''
     \<noteq> extract_features ''John Doe'' ''123456789'' (Some ''123 Main St'') ''PASSPORT''"
  by (simp add: john_doe_features john_doe_features_predict)

subsection \<open>C10: a null address\<close>

text \<open>
  C10: the request model admits a null address, and for every such request
  \<^verbatim>\<open>extract_features\<close>, \<^verbatim>\<open>predict_fraud\<close> and the endpoint \<^verbatim>\<open>verify\<close> raise (\<^verbatim>\<open>TypeError\<close>, from
  \<^verbatim>\<open>len(address)\<close>) instead of returning a result, before anything is written to the audit
  log; \<^verbatim>\<open>predict_fraud\<close> returns a result exactly when the address is not null.
\<close>

theorem null_address_raises:
  "extract_features name doc None dtype = Inl TypeError \<and>
   predict_fraud g name doc None dtype = Inl TypeError \<and>
   verify g lg vid ts
     \<lparr> req_name = name, req_documentNumber = doc, req_address = None, req_documentType = dtype \<rparr>
     = (Inl TypeError, lg) \<and>
   (\<exists>r. predict_fraud g name doc address dtype = Inr r) = (address \<noteq> None)"
proof -
  have "(\<exists>r. predict_fraud g name doc address dtype = Inr r) = (address \<noteq> None)"
  proof (cases address)
    case None
    then show ?thesis by (simp add: predict_fraud_None)
  next
    case (Some a)
    then show ?thesis using predict_fraud_returns [of g name doc a dtype] by simp
  qed
  then show ?thesis
    by (simp add: predict_fraud_None verify_def extract_features_def)
qed

text \<open>The theorem on the scenario request with its address set to null.\<close>

theorem null_address_raises_witness:
  "verify initial_globals \<lparr> log_writable = True, log_exists = False, log_lines = [] \<rparr>
     ''VER1'' ''2024-01-01T00:00:00''
     \<lparr> req_name = ''John Doe'', req_documentNumber = ''123456789'', req_address = None,
       req_documentType = ''PASSPORT'' \<rparr>
     = (Inl TypeError, \<lparr> log_writable = True, log_exists = False, log_lines = [] \<rparr>)"
  using null_address_raises [of "''John Doe''" "''123456789''" "''PASSPORT''" initial_globals
      "\<lparr> log_writable = True, log_exists = False, log_lines = [] \<rparr>" "''VER1''"
      "''2024-01-01T00:00:00''" None]
  by simp

end
